theory Spec2Isabelle
  imports Complex_Main "HOL-Library.Word" "HOL-Library.Sublist" "HOL-Library.Log_Nat"
begin

unbundle bit_operations_syntax

section \<open>Strings and the output buffer\<close>

text \<open>
  C strings are modelled as \<open>string\<close> (a list of bytes). \<open>strcmp(a, b) == 0\<close> is equality
  of the two lists; a \<open>char*\<close> parameter never holds the terminating NUL inside its text.
  The source file is UTF-8, so the degree sign of the format \<open>%u\<degree>C\<close> is the two bytes
  \<open>0xC2 0xB0\<close>.
\<close>

definition degree_sign :: string where
  "degree_sign = [CHR 0xC2, CHR 0xB0]"

definition digit_char :: "nat \<Rightarrow> char" where
  "digit_char d = ''0123456789'' ! d"

text \<open>The decimal digits of a natural number, most significant first.\<close>

fun dec :: "nat \<Rightarrow> string" where
  "dec n = (if n < 10 then [digit_char n] else dec (n div 10) @ [digit_char (n mod 10)])"

declare dec.simps [simp del]

text \<open>The last \<open>k\<close> decimal digits of a number, padded with zeros on the left.\<close>

fun dec_pad :: "nat \<Rightarrow> nat \<Rightarrow> string" where
  "dec_pad 0 n = []"
| "dec_pad (Suc k) n = dec_pad k (n div 10) @ [digit_char (n mod 10)]"

text \<open>
  \<open>%u\<close> given an \<open>int\<close> argument prints the argument reinterpreted as a 32-bit unsigned
  number.
\<close>

definition printf_u :: "int \<Rightarrow> string" where
  "printf_u i = dec (nat (i mod 2 ^ 32))"

text \<open>
  \<open>snprintf(buf, bufSize, ...)\<close> stores at most \<open>bufSize - 1\<close> characters of the formatted
  text; both routers format into \<open>static char tempStr[256]\<close>.
\<close>

definition snprintf :: "nat \<Rightarrow> string \<Rightarrow> string" where
  "snprintf bufSize s = take (bufSize - 1) s"

definition sizeof_tempStr :: nat where
  "sizeof_tempStr = 256"

section \<open>Floating point values\<close>

text \<open>
  A finite floating point value is modelled by the rational number it denotes. Every
  arithmetic operation and conversion rounds its exact result to the nearest value with a
  \<open>p\<close>-bit significand, ties to even: \<open>p = 24\<close> for \<open>float\<close>, \<open>p = 53\<close> for \<open>double\<close>.
  The exponent range is not bounded, and NaN and the infinities are outside the model: an
  operation that would produce them (division by zero) and a conversion to an integer type
  that cannot hold the truncated value have no defined result, which is \<open>None\<close>.
\<close>

definition round_half_even :: "rat \<Rightarrow> int" where
  "round_half_even z = (let f = \<lfloor>z\<rfloor>; d = z - of_int f in
     if d < 1 / 2 then f else if 1 / 2 < d then f + 1 else if even f then f else f + 1)"

text \<open>For \<open>0 < x\<close>, \<open>ilog2 x\<close> is the exponent \<open>e\<close> with \<open>2 ^ e \<le> x < 2 ^ (e + 1)\<close>.\<close>

definition ilog2 :: "rat \<Rightarrow> int" where
  "ilog2 x = (if 1 \<le> x then bitlen \<lfloor>x\<rfloor> - 1 else - bitlen (\<lceil>1 / x\<rceil> - 1))"

definition fl :: "nat \<Rightarrow> rat \<Rightarrow> rat" where
  "fl p x = (if x = 0 then 0 else
     (let u = 2 powi (ilog2 \<bar>x\<bar> - int p + 1) in of_int (round_half_even (x / u)) * u))"

definition is_float32 :: "rat \<Rightarrow> bool" where
  "is_float32 x \<longleftrightarrow> fl 24 x = x"

definition int_to_float :: "int \<Rightarrow> rat" where
  "int_to_float i = fl 24 (of_int i)"

definition f32_div :: "rat \<Rightarrow> rat \<Rightarrow> rat option" where
  "f32_div a b = (if b = 0 then None else Some (fl 24 (a / b)))"

definition f32_mul :: "rat \<Rightarrow> rat \<Rightarrow> rat" where
  "f32_mul a b = fl 24 (a * b)"

definition f64_div :: "rat \<Rightarrow> rat \<Rightarrow> rat option" where
  "f64_div a b = (if b = 0 then None else Some (fl 53 (a / b)))"

definition f64_add :: "rat \<Rightarrow> rat \<Rightarrow> rat" where
  "f64_add a b = fl 53 (a + b)"

text \<open>Conversion to an integer type truncates towards zero.\<close>

definition trunc :: "rat \<Rightarrow> int" where
  "trunc x = (if x < 0 then \<lceil>x\<rceil> else \<lfloor>x\<rfloor>)"

definition float_to_int :: "rat \<Rightarrow> int option" where
  "float_to_int x = (let t = trunc x in if - (2 ^ 31) \<le> t \<and> t < 2 ^ 31 then Some t else None)"

definition double_to_uint :: "rat \<Rightarrow> 32 word option" where
  "double_to_uint x = (let t = trunc x in if 0 \<le> t \<and> t < 2 ^ 32 then Some (word_of_int t) else None)"

text \<open>
  \<open>%.<d>f\<close>: the value rounded to \<open>d\<close> decimals, as integer part, point and \<open>d\<close> digits.
\<close>

definition printf_f :: "nat \<Rightarrow> rat \<Rightarrow> string" where
  "printf_f d x = (let n = nat (round_half_even (\<bar>x\<bar> * 10 ^ d)) in
     (if x < 0 then ''-'' else []) @ dec (n div 10 ^ d) @ (if d = 0 then [] else ''.'' @ dec_pad d n))"

definition GetValueOrDefault :: "rat option \<Rightarrow> rat \<Rightarrow> rat" where
  "GetValueOrDefault v d = (case v of None \<Rightarrow> d | Some x \<Rightarrow> x)"

section \<open>The hardware tree of LibreHardwareMonitor\<close>

text \<open>
  The library is not part of the repository; the enumerations list the members of its
  \<open>HardwareType\<close> and \<open>SensorType\<close>. A sensor carries a type tag, a display name and an
  optional \<open>float\<close> value (\<open>Nullable<float>\<close>). A hardware node owns sensors and
  sub-hardware nodes. \<open>Update()\<close> refreshes the values of a node from the machine; the tree
  of the model holds the values that the refresh of the current call produces.
\<close>

datatype HardwareType =
    HardwareType_Motherboard | HardwareType_SuperIO | HardwareType_Cpu | HardwareType_Memory
  | HardwareType_GpuNvidia | HardwareType_GpuAmd | HardwareType_GpuIntel | HardwareType_Storage
  | HardwareType_Network | HardwareType_Cooler | HardwareType_EmbeddedController
  | HardwareType_Psu | HardwareType_Battery

datatype SensorType =
    SensorType_Voltage | SensorType_Current | SensorType_Power | SensorType_Clock
  | SensorType_Temperature | SensorType_Load | SensorType_Frequency | SensorType_Fan
  | SensorType_Flow | SensorType_Control | SensorType_Level | SensorType_Factor
  | SensorType_Data | SensorType_SmallData | SensorType_Throughput | SensorType_TimeSpan
  | SensorType_Energy | SensorType_Noise

record ISensor =
  SensorType :: SensorType
  Name :: string
  Value :: "rat option"

datatype IHardware =
  IHardware (HardwareType: HardwareType) (Sensors: "ISensor list") (SubHardware: "IHardware list")

record Computer =
  IsCpuEnabled :: bool
  IsMotherboardEnabled :: bool
  IsOpen :: bool
  Hardware :: "IHardware list"

section \<open>The NVML interface\<close>

text \<open>
  \<open>nvml.h\<close> is not part of the repository. A status is \<open>NVML_SUCCESS\<close> or an error code;
  every query returns its status together with the value it stored through its output
  parameter. \<open>unsigned int\<close> is \<open>32 word\<close>, \<open>unsigned long long\<close> is \<open>64 word\<close>.
\<close>

datatype nvmlReturn_t = NVML_SUCCESS | NVML_ERROR nat

type_synonym nvmlDevice_t = nat

datatype nvmlClockType_t = NVML_CLOCK_GRAPHICS | NVML_CLOCK_SM | NVML_CLOCK_MEM | NVML_CLOCK_VIDEO

datatype nvmlClockId_t =
  NVML_CLOCK_ID_CURRENT | NVML_CLOCK_ID_APP_CLOCK_TARGET | NVML_CLOCK_ID_APP_CLOCK_DEFAULT
  | NVML_CLOCK_ID_CUSTOMER_BOOST_MAX

datatype nvmlTemperatureSensors_t = NVML_TEMPERATURE_GPU

record nvmlMemory_t =
  total :: "64 word"
  free :: "64 word"
  used :: "64 word"

record nvmlUtilization_t =
  gpu :: "32 word"
  memory :: "32 word"

definition NVML_CLK_THROTTLE_REASON_THERMAL_LIMIT :: "64 word" where
  "NVML_CLK_THROTTLE_REASON_THERMAL_LIMIT = 0x2"

definition NVML_CLK_THROTTLE_REASON_RELIABILITY :: "64 word" where
  "NVML_CLK_THROTTLE_REASON_RELIABILITY = 0x4"

definition NVML_CLK_THROTTLE_REASON_SW_POWER_CAP :: "64 word" where
  "NVML_CLK_THROTTLE_REASON_SW_POWER_CAP = 0x8"

section \<open>The host: operating system and vendor libraries\<close>

text \<open>
  Everything the plugin reads from outside itself during one call: the privilege check,
  what \<open>Computer.Open()\<close> does (it finds the hardware of the machine or throws), and the
  answers of the NVML functions.
\<close>

datatype open_outcome = Opens "IHardware list" | Throws string

record host =
  IsRunningAsAdmin :: bool
  Computer_Open :: open_outcome
  nvmlInit :: nvmlReturn_t
  nvmlErrorString :: "nvmlReturn_t \<Rightarrow> string"
  nvmlDeviceGetHandleByIndex :: "nat \<Rightarrow> nvmlReturn_t \<times> nvmlDevice_t"
  nvmlDeviceGetTemperature :: "nvmlDevice_t \<Rightarrow> nvmlTemperatureSensors_t \<Rightarrow> nvmlReturn_t \<times> 32 word"
  nvmlDeviceGetCurrentClocksThrottleReasons :: "nvmlDevice_t \<Rightarrow> nvmlReturn_t \<times> 64 word"
  nvmlDeviceGetFanSpeed :: "nvmlDevice_t \<Rightarrow> nvmlReturn_t \<times> 32 word"
  nvmlDeviceGetPowerUsage :: "nvmlDevice_t \<Rightarrow> nvmlReturn_t \<times> 32 word"
  nvmlDeviceGetClock ::
    "nvmlDevice_t \<Rightarrow> nvmlClockType_t \<Rightarrow> nvmlClockId_t \<Rightarrow> nvmlReturn_t \<times> 32 word"
  nvmlDeviceGetMemoryInfo :: "nvmlDevice_t \<Rightarrow> nvmlReturn_t \<times> nvmlMemory_t"
  nvmlDeviceGetUtilizationRates :: "nvmlDevice_t \<Rightarrow> nvmlReturn_t \<times> nvmlUtilization_t"

section \<open>The state of the plugin\<close>

text \<open>
  The two process-wide variables \<open>nvmlInitialized\<close> and \<open>HardwareMonitor::computer\<close>
  (\<open>None\<close> is \<open>nullptr\<close>), and the message boxes shown so far (text, caption).
\<close>

record plugin_state =
  nvmlInitialized :: bool
  computer :: "Computer option"
  messages :: "(string \<times> string) list"

definition CPU_FAN :: int where
  "CPU_FAN = 2"

definition CPU_SPEED :: int where
  "CPU_SPEED = 1800"

definition MIN_INTERVAL :: int where
  "MIN_INTERVAL = 300"

definition MessageBoxA :: "string \<Rightarrow> string \<Rightarrow> plugin_state \<Rightarrow> plugin_state" where
  "MessageBoxA text caption st = st\<lparr>messages := messages st @ [(text, caption)]\<rparr>"

text \<open>
  \<open>HardwareMonitor::Initialize\<close>. The new \<open>Computer\<close> is stored in the static field before
  \<open>Open()\<close> runs, so an exception of \<open>Open()\<close> leaves a handle that is not null and not
  open. The first component of the result is the message of the exception thrown, if any.
\<close>

definition HardwareMonitor_Initialize :: "host \<Rightarrow> plugin_state \<Rightarrow> string option \<times> plugin_state" where
  "HardwareMonitor_Initialize h st =
     (if computer st = None then
        (let c = \<lparr>IsCpuEnabled = True, IsMotherboardEnabled = True, IsOpen = False, Hardware = []\<rparr>
         in case Computer_Open h of
              Opens hw \<Rightarrow> (None, st\<lparr>computer := Some (c\<lparr>IsOpen := True, Hardware := hw\<rparr>)\<rparr>)
            | Throws msg \<Rightarrow> (Some msg, st\<lparr>computer := Some c\<rparr>))
      else (None, st))"

definition HardwareMonitor_Close :: "plugin_state \<Rightarrow> plugin_state" where
  "HardwareMonitor_Close st = (if computer st \<noteq> None then st\<lparr>computer := None\<rparr> else st)"

definition checkNvmlInitialized :: "plugin_state \<Rightarrow> string \<Rightarrow> nat \<Rightarrow> bool \<times> string" where
  "checkNvmlInitialized st errorMsg bufSize =
     (if \<not> nvmlInitialized st then (False, snprintf bufSize ''NVML not initialized'')
      else (True, errorMsg))"

section \<open>CPU sensor lookups\<close>

text \<open>
  The loop shared by \<open>GetCpuLoad\<close>, \<open>GetCpuPower\<close>, \<open>GetCpuTemperature\<close> and
  \<open>GetCpuFrequency\<close>: over the hardware nodes of type CPU in order, the first sensor that
  satisfies the test of the lookup.
\<close>

fun cpu_sensor_scan :: "(ISensor \<Rightarrow> bool) \<Rightarrow> IHardware list \<Rightarrow> ISensor option" where
  "cpu_sensor_scan P [] = None"
| "cpu_sensor_scan P (hardware # rest) =
     (if HardwareType hardware = HardwareType_Cpu then
        (case find P (Sensors hardware) of
           Some sensor \<Rightarrow> Some sensor
         | None \<Rightarrow> cpu_sensor_scan P rest)
      else cpu_sensor_scan P rest)"

text \<open>
  A lookup first runs \<open>HardwareMonitor::Initialize\<close>; an exception of it leaves the lookup
  and its caller (result \<open>None\<close>). \<open>with_monitor\<close> hands the hardware list to the scan.
\<close>

definition with_monitor ::
  "host \<Rightarrow> plugin_state \<Rightarrow> (IHardware list \<Rightarrow> 'a option) \<Rightarrow> 'a option \<times> plugin_state" where
  "with_monitor h st body =
     (case HardwareMonitor_Initialize h st of
        (Some ex, st') \<Rightarrow> (None, st')
      | (None, st') \<Rightarrow>
          (case computer st' of
             None \<Rightarrow> (None, st')
           | Some c \<Rightarrow> (body (Hardware c), st')))"

definition GetCpuLoad :: "host \<Rightarrow> plugin_state \<Rightarrow> int option \<times> plugin_state" where
  "GetCpuLoad h st = with_monitor h st (\<lambda>hw.
     case cpu_sensor_scan (\<lambda>sensor. SensorType sensor = SensorType_Load \<and> Name sensor = ''CPU Total'') hw of
       Some sensor \<Rightarrow> float_to_int (GetValueOrDefault (Value sensor) 0)
     | None \<Rightarrow> Some (- 1))"

definition GetCpuPower :: "host \<Rightarrow> plugin_state \<Rightarrow> int option \<times> plugin_state" where
  "GetCpuPower h st = with_monitor h st (\<lambda>hw.
     case cpu_sensor_scan (\<lambda>sensor. SensorType sensor = SensorType_Power \<and> sublist ''Package'' (Name sensor)) hw of
       Some sensor \<Rightarrow> float_to_int (GetValueOrDefault (Value sensor) 0)
     | None \<Rightarrow> Some (- 1))"

definition GetCpuTemperature :: "host \<Rightarrow> plugin_state \<Rightarrow> int option \<times> plugin_state" where
  "GetCpuTemperature h st = with_monitor h st (\<lambda>hw.
     case cpu_sensor_scan (\<lambda>sensor. SensorType sensor = SensorType_Temperature \<and> Name sensor = ''CPU Package'') hw of
       Some sensor \<Rightarrow> float_to_int (GetValueOrDefault (Value sensor) 0)
     | None \<Rightarrow> Some (- 1))"

definition GetCpuFrequency :: "host \<Rightarrow> plugin_state \<Rightarrow> rat option \<times> plugin_state" where
  "GetCpuFrequency h st = with_monitor h st (\<lambda>hw.
     case cpu_sensor_scan (\<lambda>sensor. SensorType sensor = SensorType_Clock \<and> Name sensor = ''CPU Core #1'') hw of
       Some sensor \<Rightarrow> Some (GetValueOrDefault (Value sensor) 0)
     | None \<Rightarrow> Some (- 1))"

text \<open>
  The fan loops: the sensors of every sub-hardware node of every top-level node, in order,
  counting the sensors of type Fan in \<open>currentFanIndex\<close>. The result is the sensor at
  which the counter equals \<open>fanIndex\<close> (\<open>Inl\<close>) or the counter after the last sensor (\<open>Inr\<close>).
\<close>

fun fan_scan_sensors :: "int \<Rightarrow> int \<Rightarrow> ISensor list \<Rightarrow> ISensor + int" where
  "fan_scan_sensors fanIndex currentFanIndex [] = Inr currentFanIndex"
| "fan_scan_sensors fanIndex currentFanIndex (subSensor # rest) =
     (if SensorType subSensor = SensorType_Fan then
        (if currentFanIndex = fanIndex then Inl subSensor
         else fan_scan_sensors fanIndex (currentFanIndex + 1) rest)
      else fan_scan_sensors fanIndex currentFanIndex rest)"

fun fan_scan_sub :: "int \<Rightarrow> int \<Rightarrow> IHardware list \<Rightarrow> ISensor + int" where
  "fan_scan_sub fanIndex currentFanIndex [] = Inr currentFanIndex"
| "fan_scan_sub fanIndex currentFanIndex (subHardware # rest) =
     (case fan_scan_sensors fanIndex currentFanIndex (Sensors subHardware) of
        Inl subSensor \<Rightarrow> Inl subSensor
      | Inr currentFanIndex' \<Rightarrow> fan_scan_sub fanIndex currentFanIndex' rest)"

fun fan_scan :: "int \<Rightarrow> int \<Rightarrow> IHardware list \<Rightarrow> ISensor + int" where
  "fan_scan fanIndex currentFanIndex [] = Inr currentFanIndex"
| "fan_scan fanIndex currentFanIndex (hardware # rest) =
     (case fan_scan_sub fanIndex currentFanIndex (SubHardware hardware) of
        Inl subSensor \<Rightarrow> Inl subSensor
      | Inr currentFanIndex' \<Rightarrow> fan_scan fanIndex currentFanIndex' rest)"

definition GetCpuFanSpeed :: "host \<Rightarrow> plugin_state \<Rightarrow> int \<Rightarrow> int \<Rightarrow> int option \<times> plugin_state" where
  "GetCpuFanSpeed h st fanIndex maxFanSpeed = with_monitor h st (\<lambda>hw.
     case fan_scan fanIndex 0 hw of
       Inl subSensor \<Rightarrow>
         (let currentSpeed = GetValueOrDefault (Value subSensor) 0 in
          if currentSpeed = 0 then Some 0
          else Option.bind (f32_div currentSpeed (int_to_float maxFanSpeed))
                 (\<lambda>q. float_to_int (f32_mul q 100)))
     | Inr _ \<Rightarrow> Some (- 1))"

definition GetCpuFanSpeedRPM :: "host \<Rightarrow> plugin_state \<Rightarrow> int \<Rightarrow> int \<Rightarrow> int option \<times> plugin_state" where
  "GetCpuFanSpeedRPM h st fanIndex maxFanSpeed = with_monitor h st (\<lambda>hw.
     case fan_scan fanIndex 0 hw of
       Inl subSensor \<Rightarrow> float_to_int (GetValueOrDefault (Value subSensor) 0)
     | Inr _ \<Rightarrow> Some (- 1))"

section \<open>The exported functions\<close>

definition SmartieInit :: "host \<Rightarrow> plugin_state \<Rightarrow> plugin_state" where
  "SmartieInit h st =
     (let st1 = (if \<not> IsRunningAsAdmin h
                 then MessageBoxA ''Administrative privileges required for this plugin'' ''Error'' st
                 else st);
          st2 = (if \<not> nvmlInitialized st1 then
                   (let result = nvmlInit h in
                    if result = NVML_SUCCESS then st1\<lparr>nvmlInitialized := True\<rparr>
                    else MessageBoxA (nvmlErrorString h result) ''NVML Init Failed'' st1)
                 else st1)
      in case HardwareMonitor_Initialize h st2 of
           (None, st3) \<Rightarrow> st3
         | (Some ex, st3) \<Rightarrow> MessageBoxA ex ''Initialization Error'' st3)"

definition SmartieFini :: "plugin_state \<Rightarrow> plugin_state" where
  "SmartieFini st =
     (if nvmlInitialized st then HardwareMonitor_Close (st\<lparr>nvmlInitialized := False\<rparr>)
      else st)"

definition GetMinRefreshInterval :: int where
  "GetMinRefreshInterval = MIN_INTERVAL"

text \<open>
  \<open>function1\<close> returns the text left in its buffer and the state after the lookup;
  \<open>None\<close> stands for a call that does not return a text (an exception of the hardware
  monitor, or a conversion without a defined result).
\<close>

definition function1 :: "host \<Rightarrow> plugin_state \<Rightarrow> string \<Rightarrow> string \<Rightarrow> string option \<times> plugin_state" where
  "function1 h st param1 param2 =
     (let showUnits = (param2 = ''1'') in
      if param1 = ''Load'' then
        (case GetCpuLoad h st of
           (None, st') \<Rightarrow> (None, st')
         | (Some load, st') \<Rightarrow>
             (Some (if load < 0 then snprintf sizeof_tempStr ''Error reading CPU Load''
                    else snprintf sizeof_tempStr
                           (if showUnits then printf_u load @ ''%'' else printf_u load)), st'))
      else if param1 = ''Power'' then
        (case GetCpuPower h st of
           (None, st') \<Rightarrow> (None, st')
         | (Some tdp, st') \<Rightarrow>
             (Some (if tdp < 0 then snprintf sizeof_tempStr ''Error reading CPU Power''
                    else snprintf sizeof_tempStr
                           (if showUnits then printf_u tdp @ ''W'' else printf_u tdp)), st'))
      else if param1 = ''Temp'' then
        (case GetCpuTemperature h st of
           (None, st') \<Rightarrow> (None, st')
         | (Some temp, st') \<Rightarrow>
             (Some (if temp < 0 then snprintf sizeof_tempStr ''Error reading CPU Temp''
                    else snprintf sizeof_tempStr
                           (if showUnits then printf_u temp @ degree_sign @ ''C''
                            else printf_u temp)), st'))
      else if param1 = ''Fan_RPM'' then
        (case GetCpuFanSpeedRPM h st CPU_FAN CPU_SPEED of
           (None, st') \<Rightarrow> (None, st')
         | (Some fanSpeedRPM, st') \<Rightarrow>
             (Some (if fanSpeedRPM < 0 then snprintf sizeof_tempStr ''Error reading Fan Speed''
                    else snprintf sizeof_tempStr
                           (if showUnits then printf_u fanSpeedRPM @ ''RPM''
                            else printf_u fanSpeedRPM)), st'))
      else if param1 = ''Fan'' then
        (case GetCpuFanSpeed h st CPU_FAN CPU_SPEED of
           (None, st') \<Rightarrow> (None, st')
         | (Some fanSpeed, st') \<Rightarrow>
             (Some (if fanSpeed < 0 then snprintf sizeof_tempStr ''Error reading Fan Speed''
                    else snprintf sizeof_tempStr
                           (if showUnits then printf_u fanSpeed @ ''%''
                            else printf_u fanSpeed)), st'))
      else if param1 = ''Clock'' then
        (case GetCpuFrequency h st of
           (None, st') \<Rightarrow> (None, st')
         | (Some clock, st') \<Rightarrow>
             (if clock < 0 then (Some (snprintf sizeof_tempStr ''Error reading CPU clock''), st')
              else
                (case f32_div clock 1000 of
                   None \<Rightarrow> (None, st')
                 | Some clockGHz \<Rightarrow>
                     (Some (snprintf sizeof_tempStr
                              (if showUnits then printf_f 2 clockGHz @ ''GHz''
                               else printf_f 2 clockGHz)), st'))))
      else (Some (snprintf sizeof_tempStr ''Invalid parameter''), st))"

text \<open>
  \<open>function2\<close> does not change the state. \<open>None\<close> stands for a call without a defined
  result (the division by \<open>memInfo.total = 0\<close>).
\<close>

definition function2 :: "host \<Rightarrow> plugin_state \<Rightarrow> string \<Rightarrow> string \<Rightarrow> string option" where
  "function2 h st param1 param2 =
     (case checkNvmlInitialized st [] sizeof_tempStr of
        (False, tempStr) \<Rightarrow> Some tempStr
      | (True, tempStr) \<Rightarrow>
     (case nvmlDeviceGetHandleByIndex h 0 of (result, device) \<Rightarrow>
      if result \<noteq> NVML_SUCCESS then
        Some (snprintf sizeof_tempStr (''GPU handle error: '' @ nvmlErrorString h result))
      else
      (let showUnits = (param2 = ''1'') in
      if param1 = ''Temp'' then
        (case nvmlDeviceGetTemperature h device NVML_TEMPERATURE_GPU of (result, temp) \<Rightarrow>
           if result \<noteq> NVML_SUCCESS then
             Some (snprintf sizeof_tempStr (''Error getting temp: '' @ nvmlErrorString h result))
           else
             Some (snprintf sizeof_tempStr
                     (if showUnits then printf_u (uint temp) @ degree_sign @ ''C''
                      else printf_u (uint temp))))
      else if param1 = ''Limit'' then
        (case nvmlDeviceGetCurrentClocksThrottleReasons h device of (result, throttleReasons) \<Rightarrow>
           if result \<noteq> NVML_SUCCESS then
             Some (snprintf sizeof_tempStr
                     (''Error getting throttle reasons: '' @ nvmlErrorString h result))
           else
             Some (snprintf sizeof_tempStr
                     (if throttleReasons AND NVML_CLK_THROTTLE_REASON_RELIABILITY \<noteq> 0 then ''!''
                      else '' '')))
      else if param1 = ''Fan'' then
        (case nvmlDeviceGetFanSpeed h device of (result, fanSpeed) \<Rightarrow>
           if result \<noteq> NVML_SUCCESS then
             Some (snprintf sizeof_tempStr
                     (''Error getting fan speed: '' @ nvmlErrorString h result))
           else
             Some (snprintf sizeof_tempStr
                     (if showUnits then printf_u (uint fanSpeed) @ ''%''
                      else printf_u (uint fanSpeed))))
      else if param1 = ''Power'' then
        (case nvmlDeviceGetPowerUsage h device of (result, power') \<Rightarrow>
           if result \<noteq> NVML_SUCCESS then
             Some (snprintf sizeof_tempStr
                     (''Error getting power usage: '' @ nvmlErrorString h result))
           else
             (case Option.bind (f64_div (of_int (uint power')) 1000)
                     (\<lambda>q. double_to_uint (f64_add q (1 / 2))) of
                None \<Rightarrow> None
              | Some watts \<Rightarrow>
                  Some (snprintf sizeof_tempStr
                          (if showUnits then printf_u (uint watts) @ ''W''
                           else printf_u (uint watts)))))
      else if param1 = ''Clock'' then
        (case nvmlDeviceGetClock h device NVML_CLOCK_GRAPHICS NVML_CLOCK_ID_CURRENT of
           (result, clock) \<Rightarrow>
           if result \<noteq> NVML_SUCCESS then
             Some (snprintf sizeof_tempStr
                     (''Error getting GPU clock: '' @ nvmlErrorString h result))
           else
             (case f32_div (fl 24 (of_int (uint clock))) 1000 of
                None \<Rightarrow> None
              | Some clockGHz \<Rightarrow>
                  Some (snprintf sizeof_tempStr
                          (if showUnits then printf_f 2 clockGHz @ ''GHz''
                           else printf_f 2 clockGHz))))
      else if param1 = ''Mem_Clock'' then
        (case nvmlDeviceGetClock h device NVML_CLOCK_MEM NVML_CLOCK_ID_CURRENT of
           (result, memClock) \<Rightarrow>
           if result \<noteq> NVML_SUCCESS then
             Some (snprintf sizeof_tempStr
                     (''Error getting Memory clock: '' @ nvmlErrorString h result))
           else
             (case f32_div (fl 24 (of_int (uint memClock))) 1000 of
                None \<Rightarrow> None
              | Some memClockGHz \<Rightarrow>
                  Some (snprintf sizeof_tempStr
                          (if showUnits then printf_f 2 memClockGHz @ ''GHz''
                           else printf_f 2 memClockGHz))))
      else if param1 = ''Mem_Alloc'' then
        (case nvmlDeviceGetMemoryInfo h device of (result, memInfo) \<Rightarrow>
           if result \<noteq> NVML_SUCCESS then
             Some (snprintf sizeof_tempStr
                     (''Error getting memory usage: '' @ nvmlErrorString h result))
           else
             (case f32_div (fl 24 (of_int (uint (used memInfo)))) (int_to_float (1024 * 1024 * 1024)) of
                None \<Rightarrow> None
              | Some memUsage \<Rightarrow>
                  Some (snprintf sizeof_tempStr
                          (if showUnits then printf_f 1 memUsage @ ''Gb''
                           else printf_f 1 memUsage))))
      else if param1 = ''Mem_Usage'' then
        (case nvmlDeviceGetMemoryInfo h device of (result, memInfo) \<Rightarrow>
           if result \<noteq> NVML_SUCCESS then
             Some (snprintf sizeof_tempStr
                     (''Error getting memory usage: '' @ nvmlErrorString h result))
           else if total memInfo = 0 then None
           else
             (let memUsage = (ucast ((used memInfo * 100) div total memInfo) :: 32 word) in
              Some (snprintf sizeof_tempStr
                      (if showUnits then printf_u (uint memUsage) @ ''%''
                       else printf_u (uint memUsage)))))
      else if param1 = ''Load'' then
        (case nvmlDeviceGetUtilizationRates h device of (result, utilization) \<Rightarrow>
           if result \<noteq> NVML_SUCCESS then
             Some (snprintf sizeof_tempStr
                     (''Error getting GPU load: '' @ nvmlErrorString h result))
           else
             Some (snprintf sizeof_tempStr
                     (if showUnits then printf_u (uint (gpu utilization)) @ ''%''
                      else printf_u (uint (gpu utilization)))))
      else Some (snprintf sizeof_tempStr ''Invalid parameter''))))"

section \<open>Example machines\<close>

text \<open>
  The state of a freshly loaded plugin, a machine with one CPU node and a motherboard whose
  Super I/O chip carries three fans, and a host with an NVIDIA GPU. The fan at index
  \<open>CPU_FAN\<close> is the third one.
\<close>

definition initial_state :: plugin_state where
  "initial_state = \<lparr>nvmlInitialized = False, computer = None, messages = []\<rparr>"

definition fan_sensor :: "string \<Rightarrow> rat option \<Rightarrow> ISensor" where
  "fan_sensor n v = \<lparr>SensorType = SensorType_Fan, Name = n, Value = v\<rparr>"

definition example_machine :: "rat option \<Rightarrow> rat option \<Rightarrow> IHardware list" where
  "example_machine cpu_value fan_value =
     [IHardware HardwareType_Cpu
        [\<lparr>SensorType = SensorType_Load, Name = ''CPU Total'', Value = cpu_value\<rparr>,
         \<lparr>SensorType = SensorType_Power, Name = ''CPU Package'', Value = cpu_value\<rparr>,
         \<lparr>SensorType = SensorType_Temperature, Name = ''CPU Package'', Value = cpu_value\<rparr>,
         \<lparr>SensorType = SensorType_Clock, Name = ''CPU Core #1'', Value = cpu_value\<rparr>] [],
      IHardware HardwareType_Motherboard []
        [IHardware HardwareType_SuperIO
           [\<lparr>SensorType = SensorType_Temperature, Name = ''Temperature #1'', Value = Some 30\<rparr>,
            fan_sensor ''Fan #1'' (Some 900), fan_sensor ''Fan #2'' (Some 1200),
            fan_sensor ''Fan #3'' fan_value] []]]"

definition example_errorString :: "nvmlReturn_t \<Rightarrow> string" where
  "example_errorString r = (case r of NVML_SUCCESS \<Rightarrow> ''Success'' | NVML_ERROR _ \<Rightarrow> ''Unknown Error'')"

definition example_host :: "nvmlReturn_t \<Rightarrow> IHardware list \<Rightarrow> host" where
  "example_host init hw =
     \<lparr>IsRunningAsAdmin = True, Computer_Open = Opens hw, nvmlInit = init,
      nvmlErrorString = example_errorString,
      nvmlDeviceGetHandleByIndex = (\<lambda>i. if i = 0 then (NVML_SUCCESS, 7) else (NVML_ERROR 2, 0)),
      nvmlDeviceGetTemperature = (\<lambda>d s. (NVML_SUCCESS, 65)),
      nvmlDeviceGetCurrentClocksThrottleReasons = (\<lambda>d. (NVML_SUCCESS, 0x4)),
      nvmlDeviceGetFanSpeed = (\<lambda>d. (NVML_SUCCESS, 40)),
      nvmlDeviceGetPowerUsage = (\<lambda>d. (NVML_SUCCESS, 123456)),
      nvmlDeviceGetClock = (\<lambda>d t i. (NVML_SUCCESS, if t = NVML_CLOCK_MEM then 7000 else 1905)),
      nvmlDeviceGetMemoryInfo =
        (\<lambda>d. (NVML_SUCCESS, \<lparr>total = 8589934592, free = 6442450944, used = 2147483648\<rparr>)),
      nvmlDeviceGetUtilizationRates = (\<lambda>d. (NVML_SUCCESS, \<lparr>gpu = 37, memory = 12\<rparr>))\<rparr>"

section \<open>The supported metric names\<close>

text \<open>The metric names of the two query functions, as the interface lists them.\<close>

definition cpu_metrics :: "string list" where
  "cpu_metrics = [''Load'', ''Power'', ''Temp'', ''Fan_RPM'', ''Fan'', ''Clock'']"

definition gpu_metrics :: "string list" where
  "gpu_metrics =
     [''Load'', ''Power'', ''Limit'', ''Temp'', ''Fan'', ''Clock'', ''Mem_Clock'', ''Mem_Alloc'',
      ''Mem_Usage'']"

section \<open>Units and error texts\<close>

text \<open>
  The unit that the format string of each metric appends when units are shown, the error
  text of each CPU metric, and for each GPU metric the prefix of its error text and the
  status of the NVML query it makes. The format of \<open>Limit\<close> has no unit.
\<close>

definition unit_suffixes :: "string list" where
  "unit_suffixes = [''%'', ''W'', degree_sign @ ''C'', ''RPM'', ''GHz'', ''Gb'']"

definition has_unit_suffix :: "string \<Rightarrow> bool" where
  "has_unit_suffix s = list_ex (\<lambda>u. suffix u s) unit_suffixes"







text \<open>A state in which NVML is initialized and the hardware monitor is not yet open.\<close>

definition gpu_ready_state :: plugin_state where
  "gpu_ready_state = \<lparr>nvmlInitialized = True, computer = None, messages = []\<rparr>"

text \<open>
  A host whose GPU reports as much used memory as it has in total, \<open>2 ^ 63\<close> bytes.
\<close>

definition huge_memory_host :: host where
  "huge_memory_host = (example_host NVML_SUCCESS [])
     \<lparr>nvmlDeviceGetMemoryInfo :=
        (\<lambda>d. (NVML_SUCCESS, \<lparr>total = 9223372036854775808, free = 0, used = 9223372036854775808\<rparr>))\<rparr>"

section \<open>Rounding half up\<close>

text \<open>
  The rounding the interface promises for the GPU power: the integer nearest to \<open>x\<close>,
  a half rounded upwards.
\<close>

definition round_half_up :: "rat \<Rightarrow> int" where
  "round_half_up x = \<lfloor>x + 1 / 2\<rfloor>"

section \<open>The fan percentage of the interface\<close>

text \<open>
  The percentage the interface describes for the CPU fan: the reading divided by the
  maximum speed, times 100, in exact arithmetic, truncated to an integer.
\<close>

definition exact_fan_percentage :: "rat \<Rightarrow> int \<Rightarrow> int" where
  "exact_fan_percentage reading maxFanSpeed = trunc (reading / of_int maxFanSpeed * 100)"

text \<open>The state after the hardware monitor has opened the machine \<open>hw\<close>.\<close>

definition opened_computer :: "IHardware list \<Rightarrow> Computer" where
  "opened_computer hw =
     \<lparr>IsCpuEnabled = True, IsMotherboardEnabled = True, IsOpen = True, Hardware = hw\<rparr>"

definition opened_state :: "IHardware list \<Rightarrow> plugin_state" where
  "opened_state hw = initial_state\<lparr>computer := Some (opened_computer hw)\<rparr>"


section \<open>Initialization and shutdown\<close>

lemma HardwareMonitor_Initialize_open:
  "computer st \<noteq> None \<Longrightarrow> HardwareMonitor_Initialize h st = (None, st)"
  by (auto simp add: HardwareMonitor_Initialize_def)

lemma computer_HardwareMonitor_Initialize:
  "computer (snd (HardwareMonitor_Initialize h st)) \<noteq> None"
  by (simp add: HardwareMonitor_Initialize_def Let_def split: open_outcome.split)

lemma computer_MessageBoxA [simp]: "computer (MessageBoxA t c st) = computer st"
  by (simp add: MessageBoxA_def)

lemma nvmlInitialized_MessageBoxA [simp]:
  "nvmlInitialized (MessageBoxA t c st) = nvmlInitialized st"
  by (simp add: MessageBoxA_def)

lemma computer_SmartieInit_open:
  assumes "computer st \<noteq> None"
  shows "computer (SmartieInit h st) = computer st"
proof -
  define st1 where "st1 = (if \<not> IsRunningAsAdmin h
      then MessageBoxA ''Administrative privileges required for this plugin'' ''Error'' st
      else st)"
  define st2 where "st2 = (if \<not> nvmlInitialized st1 then
      (let result = nvmlInit h in
       if result = NVML_SUCCESS then st1\<lparr>nvmlInitialized := True\<rparr>
       else MessageBoxA (nvmlErrorString h result) ''NVML Init Failed'' st1)
      else st1)"
  have c1: "computer st1 = computer st"
    by (simp add: st1_def)
  have c2: "computer st2 = computer st1"
    by (simp add: st2_def Let_def)
  have open2: "computer st2 \<noteq> None"
    using assms c1 c2 by simp
  have "SmartieInit h st =
      (case HardwareMonitor_Initialize h st2 of
         (None, st3) \<Rightarrow> st3
       | (Some ex, st3) \<Rightarrow> MessageBoxA ex ''Initialization Error'' st3)"
    by (simp add: SmartieInit_def st1_def st2_def Let_def)
  also have "\<dots> = st2"
    by (simp add: HardwareMonitor_Initialize_open [OF open2])
  finally show ?thesis
    using c1 c2 by simp
qed

lemma computer_SmartieInit: "computer (SmartieInit h st) \<noteq> None"
proof -
  have "\<And>st2. computer (case HardwareMonitor_Initialize h st2 of
         (None, st3) \<Rightarrow> st3
       | (Some ex, st3) \<Rightarrow> MessageBoxA ex ''Initialization Error'' st3) \<noteq> None"
    by (simp add: HardwareMonitor_Initialize_def Let_def split: open_outcome.split)
  then show ?thesis
    by (simp add: SmartieInit_def Let_def)
qed

text \<open>
  C8: a call of \<open>initialize()\<close> in a state whose Hardware Tree handle is not null leaves
  the handle as it is: \<open>HardwareMonitor::Initialize\<close> does nothing and \<open>SmartieInit\<close> returns
  the same handle, with the same contents and the same open flag. So the second of two
  calls in succession never opens or creates a handle, whatever the host answers.
\<close>

theorem initialize_idempotent_on_handle:
  "(computer st \<noteq> None \<longrightarrow>
      HardwareMonitor_Initialize h st = (None, st) \<and> computer (SmartieInit h st) = computer st)
   \<and> computer (SmartieInit h' (SmartieInit h st)) = computer (SmartieInit h st)"
  using HardwareMonitor_Initialize_open [of st h] computer_SmartieInit_open [of st h]
    computer_SmartieInit_open [OF computer_SmartieInit, of h' h st]
  by blast

theorem initialize_idempotent_on_handle_witness:
  "computer (SmartieInit (example_host NVML_SUCCESS (example_machine (Some 37) (Some 900))) initial_state)
     \<noteq> None
   \<and> computer (SmartieInit (example_host (NVML_ERROR 9) [])
        (SmartieInit (example_host NVML_SUCCESS (example_machine (Some 37) (Some 900))) initial_state))
     = computer (SmartieInit (example_host NVML_SUCCESS (example_machine (Some 37) (Some 900))) initial_state)"
  using initialize_idempotent_on_handle
    [of "SmartieInit (example_host NVML_SUCCESS (example_machine (Some 37) (Some 900))) initial_state"
        "example_host (NVML_ERROR 9) []"]
    computer_SmartieInit
  by blast

lemma SmartieFini_initialized:
  "nvmlInitialized st \<Longrightarrow> SmartieFini st = st\<lparr>nvmlInitialized := False, computer := None\<rparr>"
  by (cases "computer st") (simp_all add: SmartieFini_def HardwareMonitor_Close_def)

lemma SmartieFini_not_initialized: "\<not> nvmlInitialized st \<Longrightarrow> SmartieFini st = st"
  by (simp add: SmartieFini_def)

lemma nvmlInitialized_SmartieFini: "\<not> nvmlInitialized (SmartieFini st)"
  by (simp add: SmartieFini_def HardwareMonitor_Close_def)

text \<open>
  C3: \<open>SmartieFini\<close> closes the hardware monitor only inside the branch guarded by
  \<open>nvmlInitialized\<close>. On a host whose NVML initialization fails, \<open>SmartieInit\<close> still opens
  the Hardware Tree; the following \<open>SmartieFini\<close> changes nothing and the handle stays open.
\<close>

theorem SmartieFini_leaves_monitor_open:
  "\<not> nvmlInitialized (SmartieInit (example_host (NVML_ERROR 9) (example_machine (Some 37) (Some 900))) initial_state)
   \<and> computer (SmartieFini (SmartieInit (example_host (NVML_ERROR 9) (example_machine (Some 37) (Some 900))) initial_state))
       = Some \<lparr>IsCpuEnabled = True, IsMotherboardEnabled = True, IsOpen = True,
               Hardware = example_machine (Some 37) (Some 900)\<rparr>"
  by (simp add: SmartieInit_def SmartieFini_def example_host_def initial_state_def
      HardwareMonitor_Initialize_def MessageBoxA_def Let_def)

section \<open>The GPU gate\<close>

text \<open>
  C4: while \<open>nvmlInitialized\<close> is unset, \<open>function2\<close> returns \<open>NVML not initialized\<close> for
  every metric name and every show-units flag.
\<close>

theorem function2_not_initialized:
  "\<not> nvmlInitialized st \<Longrightarrow> function2 h st param1 param2 = Some ''NVML not initialized''"
  by (simp add: function2_def checkNvmlInitialized_def snprintf_def sizeof_tempStr_def)

theorem function2_not_initialized_witness:
  "\<not> nvmlInitialized initial_state
   \<and> function2 (example_host NVML_SUCCESS []) initial_state ''Temp'' ''1'' = Some ''NVML not initialized''"
  using function2_not_initialized [of initial_state "example_host NVML_SUCCESS []" "''Temp''" "''1''"]
  by (simp add: initial_state_def)

section \<open>Decimal output\<close>

lemma length_dec_le: "n < 10 ^ k \<Longrightarrow> 0 < k \<Longrightarrow> length (dec n) \<le> k"
proof (induction n arbitrary: k rule: dec.induct)
  case (1 n)
  show ?case
  proof (cases "n < 10")
    case True
    then show ?thesis using "1.prems" by (simp add: dec.simps [of n])
  next
    case False
    then obtain j where k: "k = Suc j" using "1.prems" by (cases k) auto
    have "j \<noteq> 0" using False "1.prems" k by (cases j) auto
    moreover have "n div 10 < 10 ^ j" using "1.prems" k by (simp add: less_mult_imp_div_less)
    ultimately have "length (dec (n div 10)) \<le> j" using "1.IH" [OF False, of j] by simp
    then show ?thesis using False k by (simp add: dec.simps [of n])
  qed
qed

lemma printf_u_uint32: "printf_u (uint (w :: 32 word)) = dec (unat w)"
proof -
  have "uint w mod 2 ^ 32 = uint w"
    using uint_lt2p [of w] by (simp add: mod_pos_pos_trivial)
  then show ?thesis by (simp add: printf_u_def)
qed

lemma length_dec_word32: "length (dec (unat (w :: 32 word))) \<le> 10"
proof -
  have "unat w < 2 ^ 32" using unsigned_less [of w, where 'a = nat] by simp
  then have "unat w < 10 ^ 10" by simp
  then show ?thesis using length_dec_le [of "unat w" 10] by simp
qed

lemma reliability_bit: "(w :: 64 word) AND NVML_CLK_THROTTLE_REASON_RELIABILITY \<noteq> 0 \<longleftrightarrow> bit w 2"
proof -
  have "w AND 2 ^ 2 = 0 \<longleftrightarrow> \<not> bit w 2"
    by (rule and_exp_eq_0_iff_not_bit)
  then show ?thesis by (simp add: NVML_CLK_THROTTLE_REASON_RELIABILITY_def)
qed

section \<open>The GPU router\<close>

lemma function2_uninitialized:
  "\<not> nvmlInitialized st \<Longrightarrow> function2 h st param1 param2 = Some ''NVML not initialized''"
  by (simp add: function2_def checkNvmlInitialized_def snprintf_def sizeof_tempStr_def)

lemma function2_handle_error:
  "nvmlInitialized st \<Longrightarrow> nvmlDeviceGetHandleByIndex h 0 = (result, device) \<Longrightarrow>
   result \<noteq> NVML_SUCCESS \<Longrightarrow>
   function2 h st param1 param2 =
     Some (snprintf sizeof_tempStr (''GPU handle error: '' @ nvmlErrorString h result))"
  by (simp add: function2_def checkNvmlInitialized_def)

lemma function2_Limit:
  assumes "nvmlInitialized st" "nvmlDeviceGetHandleByIndex h 0 = (NVML_SUCCESS, device)"
  shows "function2 h st ''Limit'' f =
     (case nvmlDeviceGetCurrentClocksThrottleReasons h device of (result, throttleReasons) \<Rightarrow>
        if result \<noteq> NVML_SUCCESS then
          Some (snprintf sizeof_tempStr (''Error getting throttle reasons: '' @ nvmlErrorString h result))
        else Some (if bit throttleReasons 2 then ''!'' else '' ''))"
  using assms
  by (cases "nvmlDeviceGetCurrentClocksThrottleReasons h device")
    (simp add: function2_def checkNvmlInitialized_def snprintf_def sizeof_tempStr_def
      reliability_bit Let_def)

lemma function2_Limit_flag:
  "function2 h st ''Limit'' f1 = function2 h st ''Limit'' f2"
proof (cases "nvmlInitialized st")
  case False
  then show ?thesis by (simp add: function2_uninitialized)
next
  case True
  obtain result device where hd: "nvmlDeviceGetHandleByIndex h 0 = (result, device)"
    by (cases "nvmlDeviceGetHandleByIndex h 0")
  show ?thesis
  proof (cases "result = NVML_SUCCESS")
    case True
    with \<open>nvmlInitialized st\<close> hd show ?thesis by (simp add: function2_Limit)
  next
    case False
    with \<open>nvmlInitialized st\<close> hd show ?thesis by (simp add: function2_handle_error)
  qed
qed

text \<open>
  C9: the text returned for the GPU metric \<open>Limit\<close> does not depend on the show-units
  flag, in any state and for any answer of the backend; when the query succeeds it is
  \<open>!\<close> if the reliability bit (bit 2, mask \<open>0x4\<close>) of the throttle reasons is set and a
  single space otherwise, with nothing appended.
\<close>

theorem Limit_ignores_show_units:
  "function2 h st ''Limit'' f1 = function2 h st ''Limit'' f2
   \<and> (nvmlInitialized st \<and> nvmlDeviceGetHandleByIndex h 0 = (NVML_SUCCESS, device)
        \<and> nvmlDeviceGetCurrentClocksThrottleReasons h device = (NVML_SUCCESS, throttleReasons)
      \<longrightarrow> function2 h st ''Limit'' f1 = Some (if bit throttleReasons 2 then ''!'' else '' ''))"
  using function2_Limit_flag [of h st f1 f2] function2_Limit [of st h device f1]
  by auto

theorem Limit_ignores_show_units_witness:
  "nvmlInitialized gpu_ready_state
   \<and> function2 (example_host NVML_SUCCESS []) gpu_ready_state ''Limit'' ''0'' = Some ''!''
   \<and> function2 (example_host NVML_SUCCESS []) gpu_ready_state ''Limit'' ''1'' = Some ''!''"
proof -
  have i: "nvmlInitialized gpu_ready_state"
    by (simp add: gpu_ready_state_def)
  have d: "nvmlDeviceGetHandleByIndex (example_host NVML_SUCCESS []) 0 = (NVML_SUCCESS, 7)"
    by (simp add: example_host_def)
  have t: "nvmlDeviceGetCurrentClocksThrottleReasons (example_host NVML_SUCCESS []) 7
      = (NVML_SUCCESS, 4)"
    by (simp add: example_host_def)
  have b: "bit (4 :: 64 word) 2"
    by (simp add: bit_iff_odd)
  note lim = Limit_ignores_show_units
    [of "example_host NVML_SUCCESS []" gpu_ready_state "''0''" "''1''" 7 4]
  have z: "function2 (example_host NVML_SUCCESS []) gpu_ready_state ''Limit'' ''0'' = Some ''!''"
    using lim [THEN conjunct2] i d t b by simp
  have "function2 (example_host NVML_SUCCESS []) gpu_ready_state ''Limit'' ''1''
      = function2 (example_host NVML_SUCCESS []) gpu_ready_state ''Limit'' ''0''"
    using lim [THEN conjunct1] by (rule sym)
  then show ?thesis
    using i z by simp
qed

section \<open>Unsupported metric names\<close>

lemma function1_invalid:
  "param1 \<notin> set cpu_metrics \<Longrightarrow> function1 h st param1 param2 = (Some ''Invalid parameter'', st)"
  by (simp add: function1_def cpu_metrics_def snprintf_def sizeof_tempStr_def)

lemma function2_invalid:
  assumes "param1 \<notin> set gpu_metrics" "nvmlInitialized st"
    "nvmlDeviceGetHandleByIndex h 0 = (NVML_SUCCESS, device)"
  shows "function2 h st param1 param2 = Some ''Invalid parameter''"
  using assms
  by (simp add: function2_def gpu_metrics_def checkNvmlInitialized_def snprintf_def sizeof_tempStr_def)

text \<open>
  C1, as the claim states it, fails for \<open>function2\<close>: before NVML is initialized an
  unsupported name is answered with the text of the gate, not with \<open>Invalid parameter\<close>.
\<close>

theorem unsupported_gpu_name_counterexample:
  "''Voltage'' \<notin> set gpu_metrics
   \<and> function2 (example_host NVML_SUCCESS []) initial_state ''Voltage'' ''0'' = Some ''NVML not initialized''
   \<and> function2 (example_host NVML_SUCCESS []) initial_state ''Voltage'' ''0'' \<noteq> Some ''Invalid parameter''"
  by (simp add: function2_uninitialized initial_state_def gpu_metrics_def)

text \<open>
  C1, amended: \<open>function1\<close> answers every name outside the CPU list with
  \<open>Invalid parameter\<close> and leaves the state alone, for every flag. \<open>function2\<close> answers every
  name outside the GPU list with \<open>Invalid parameter\<close> once it is past its two gates, that
  is when NVML is initialized and the handle of device 0 was obtained; otherwise it returns
  the text of the gate that stopped it.
\<close>

theorem unsupported_name_invalid_parameter:
  "(param1 \<notin> set cpu_metrics \<longrightarrow>
      function1 h st param1 param2 = (Some ''Invalid parameter'', st))
   \<and> (param1 \<notin> set gpu_metrics \<longrightarrow>
      function2 h st param1 param2 =
        (if \<not> nvmlInitialized st then Some ''NVML not initialized''
         else if fst (nvmlDeviceGetHandleByIndex h 0) \<noteq> NVML_SUCCESS then
           Some (snprintf sizeof_tempStr
                   (''GPU handle error: '' @ nvmlErrorString h (fst (nvmlDeviceGetHandleByIndex h 0))))
         else Some ''Invalid parameter''))"
proof -
  obtain result device where hd: "nvmlDeviceGetHandleByIndex h 0 = (result, device)"
    by (cases "nvmlDeviceGetHandleByIndex h 0")
  show ?thesis
    using function1_invalid [of param1 h st param2]
      function2_uninitialized [of st h param1 param2]
      function2_handle_error [OF _ hd, of st param1 param2]
      function2_invalid [of param1 st h device param2] hd
    by auto
qed

theorem unsupported_name_invalid_parameter_witness:
  "''Voltage'' \<notin> set cpu_metrics \<and> ''Voltage'' \<notin> set gpu_metrics
   \<and> function1 (example_host NVML_SUCCESS []) initial_state ''Voltage'' ''1''
       = (Some ''Invalid parameter'', initial_state)
   \<and> function2 (example_host NVML_SUCCESS []) gpu_ready_state ''Voltage'' ''1''
       = Some ''Invalid parameter''"
  using unsupported_name_invalid_parameter
    [of "''Voltage''" "example_host NVML_SUCCESS []" initial_state "''1''"]
    unsupported_name_invalid_parameter
    [of "''Voltage''" "example_host NVML_SUCCESS []" gpu_ready_state "''1''"]
  by (simp add: cpu_metrics_def gpu_metrics_def gpu_ready_state_def example_host_def)

section \<open>GPU memory usage\<close>

text \<open>
  C6, as the claim states it, fails: \<open>memInfo.used * 100\<close> is computed in 64 bits and wraps.
  With \<open>used = total = 2 ^ 63\<close> the product is 0 modulo \<open>2 ^ 64\<close> and the text is \<open>0%\<close>,
  where the claim gives 100.
\<close>

theorem Mem_Usage_wraps_counterexample:
  "nvmlDeviceGetMemoryInfo huge_memory_host 7
     = (NVML_SUCCESS, \<lparr>total = 9223372036854775808, free = 0, used = 9223372036854775808\<rparr>)
   \<and> function2 huge_memory_host gpu_ready_state ''Mem_Usage'' ''1'' = Some ''0%''
   \<and> unat (9223372036854775808 :: 64 word) * 100 div unat (9223372036854775808 :: 64 word) = 100"
proof -
  have "function2 huge_memory_host gpu_ready_state ''Mem_Usage'' ''1'' = Some ''0%''"
    by code_simp
  then show ?thesis
    by (simp add: huge_memory_host_def)
qed

text \<open>
  C6, amended: for a successful memory reading with \<open>total > 0\<close> whose product
  \<open>used * 100\<close> fits 64 bits and whose quotient fits 32 bits (both hold whenever
  \<open>used \<le> total\<close> and \<open>used < 2 ^ 64 / 100\<close>), \<open>Mem_Usage\<close> is the decimal text of
  \<open>(used * 100) div total\<close>, followed by \<open>%\<close> when the flag is \<open>1\<close>.
\<close>

theorem Mem_Usage_percentage:
  assumes "nvmlInitialized st" "nvmlDeviceGetHandleByIndex h 0 = (NVML_SUCCESS, device)"
    "nvmlDeviceGetMemoryInfo h device = (NVML_SUCCESS, memInfo)" "total memInfo \<noteq> 0"
    "unat (used memInfo) * 100 < 2 ^ 64"
    "unat (used memInfo) * 100 div unat (total memInfo) < 2 ^ 32"
  shows "function2 h st ''Mem_Usage'' param2 =
    Some (dec (unat (used memInfo) * 100 div unat (total memInfo))
          @ (if param2 = ''1'' then ''%'' else []))"
proof -
  let ?q = "unat (used memInfo) * 100 div unat (total memInfo)"
  have m: "unat (used memInfo * 100) = unat (used memInfo) * 100"
    using assms(5) by (simp add: unat_mult_lem [THEN iffD1])
  have d: "unat ((used memInfo * 100) div total memInfo) = ?q"
    by (simp add: unat_div m)
  have u: "unat (ucast ((used memInfo * 100) div total memInfo) :: 32 word) = ?q"
    using assms(6) d by (simp add: unsigned_ucast_eq take_bit_nat_eq_self)
  have len: "length (dec ?q) \<le> 10"
    using length_dec_word32 [of "ucast ((used memInfo * 100) div total memInfo)"] u by simp
  show ?thesis
    using assms(1-4) len
    by (simp add: function2_def checkNvmlInitialized_def snprintf_def sizeof_tempStr_def
        printf_u_uint32 u Let_def)
qed

theorem Mem_Usage_percentage_witness:
  "function2 (example_host NVML_SUCCESS []) gpu_ready_state ''Mem_Usage'' ''1'' = Some ''25%''
   \<and> function2 (example_host NVML_SUCCESS []) gpu_ready_state ''Mem_Usage'' ''0'' = Some ''25''"
proof -
  let ?m = "\<lparr>total = 8589934592, free = 6442450944, used = 2147483648\<rparr>"
  have i: "nvmlInitialized gpu_ready_state"
    by (simp add: gpu_ready_state_def)
  have d: "nvmlDeviceGetHandleByIndex (example_host NVML_SUCCESS []) 0 = (NVML_SUCCESS, 7)"
    by (simp add: example_host_def)
  have m: "nvmlDeviceGetMemoryInfo (example_host NVML_SUCCESS []) 7 = (NVML_SUCCESS, ?m)"
    by (simp add: example_host_def)
  have t: "total ?m \<noteq> 0"
    by simp
  have p: "unat (used ?m) * 100 < 2 ^ 64"
    by simp
  have q: "unat (used ?m) * 100 div unat (total ?m) < 2 ^ 32"
    by simp
  have v: "unat (used ?m) * 100 div unat (total ?m) = 25"
    by simp
  have c: "dec 25 = ''25''"
    by code_simp
  show ?thesis
    using Mem_Usage_percentage [OF i d m t p q, of "''1''"]
      Mem_Usage_percentage [OF i d m t p q, of "''0''"] v c
    by simp
qed

section \<open>Rounding to a binary significand\<close>

text \<open>
  A rounded value never crosses a point of the grid it is rounded to: if \<open>g\<close> is a
  multiple of \<open>2 ^ j\<close> and \<open>2 ^ j\<close> is a multiple of the spacing of the binade of \<open>x\<close>,
  then \<open>x \<le> g\<close> gives \<open>fl p x \<le> g\<close>, and \<open>g \<le> x\<close> gives \<open>g \<le> fl p x\<close>.
\<close>

lemma round_half_even_le: "z \<le> of_int N \<Longrightarrow> round_half_even z \<le> N"
proof -
  assume le: "z \<le> of_int N"
  show ?thesis
  proof (cases "z = of_int N")
    case True
    then show ?thesis by (simp add: round_half_even_def)
  next
    case False
    with le have "z < of_int N" by simp
    then have "\<lfloor>z\<rfloor> < N" by (simp add: floor_less_iff)
    then show ?thesis by (simp add: round_half_even_def Let_def)
  qed
qed

lemma round_half_even_ge: "of_int N \<le> z \<Longrightarrow> N \<le> round_half_even z"
proof -
  assume "of_int N \<le> z"
  then have "N \<le> \<lfloor>z\<rfloor>" by (simp add: le_floor_iff)
  then show ?thesis by (simp add: round_half_even_def Let_def)
qed

lemma ilog2_le: 
  assumes "0 < x" "x < 2 ^ Suc m"
  shows "ilog2 x \<le> int m"
proof (cases "1 \<le> x")
  case True
  have "\<lfloor>x\<rfloor> < 2 ^ Suc m"
    using assms(2) by (simp add: floor_less_iff)
  moreover have "nat (int (Suc m)) = Suc m"
    by simp
  ultimately have "bitlen \<lfloor>x\<rfloor> \<le> int (Suc m)"
    unfolding bitlen_le_iff_power by (simp del: of_nat_Suc)
  with True show ?thesis by (simp add: ilog2_def)
next
  case False
  then show ?thesis
    using bitlen_nonneg [of "\<lceil>1 / x\<rceil> - 1"] by (simp add: ilog2_def)
qed

lemma grid_point:
  assumes "e \<le> j"
  shows "of_int k * (2::rat) powi j = of_int (k * 2 ^ nat (j - e)) * 2 powi e"
proof -
  have "(2::rat) powi j = 2 powi ((j - e) + e)" by simp
  also have "\<dots> = 2 powi (j - e) * 2 powi e"
    by (rule power_int_add) simp
  also have "(2::rat) powi (j - e) = 2 ^ nat (j - e)"
    using assms by (simp add: power_int_def)
  finally show ?thesis by simp
qed

lemma fl_pos_eq:
  "0 < x \<Longrightarrow> fl p x = of_int (round_half_even (x / 2 powi (ilog2 x - int p + 1))) * 2 powi (ilog2 x - int p + 1)"
  by (simp add: fl_def Let_def)

lemma fl_le_grid:
  assumes x: "0 < x" and le: "x \<le> of_int k * 2 powi j" and j: "ilog2 x - int p + 1 \<le> j"
  shows "fl p x \<le> of_int k * 2 powi j"
proof -
  define u :: rat where "u = 2 powi (ilog2 x - int p + 1)"
  define N where "N = k * 2 ^ nat (j - (ilog2 x - int p + 1))"
  have u0: "0 < u" by (simp add: u_def)
  have g: "of_int k * 2 powi j = of_int N * u"
    unfolding N_def u_def by (rule grid_point [OF j])
  have "x / u \<le> of_int N"
    using le g u0 by (simp add: pos_divide_le_eq)
  then have "round_half_even (x / u) \<le> N"
    by (rule round_half_even_le)
  then have "of_int (round_half_even (x / u)) * u \<le> of_int N * u"
    using u0 by simp
  then show ?thesis
    using g fl_pos_eq [OF x, of p] by (simp add: u_def)
qed

lemma fl_ge_grid:
  assumes x: "0 < x" and le: "of_int k * 2 powi j \<le> x" and j: "ilog2 x - int p + 1 \<le> j"
  shows "of_int k * 2 powi j \<le> fl p x"
proof -
  define u :: rat where "u = 2 powi (ilog2 x - int p + 1)"
  define N where "N = k * 2 ^ nat (j - (ilog2 x - int p + 1))"
  have u0: "0 < u" by (simp add: u_def)
  have g: "of_int k * 2 powi j = of_int N * u"
    unfolding N_def u_def by (rule grid_point [OF j])
  have "of_int N \<le> x / u"
    using le g u0 by (simp add: pos_le_divide_eq)
  then have "N \<le> round_half_even (x / u)"
    by (rule round_half_even_ge)
  then have "of_int N * u \<le> of_int (round_half_even (x / u)) * u"
    using u0 by simp
  then show ?thesis
    using g fl_pos_eq [OF x, of p] by (simp add: u_def)
qed


text \<open>
  \<open>ilog2\<close> is the binary exponent, and \<open>fl p\<close> moves a value by at most half a unit in
  the last place of its binade.
\<close>

lemma ilog2_bounds:
  assumes "0 < x"
  shows "2 powi (ilog2 x) \<le> x" and "x < 2 powi (ilog2 x + 1)"
proof -
  have "2 powi (ilog2 x) \<le> x \<and> x < 2 powi (ilog2 x + 1)"
  proof (cases "1 \<le> x")
    case True
    define n where "n = \<lfloor>x\<rfloor>"
    have n1: "1 \<le> n" using True by (simp add: n_def le_floor_iff)
    then have n0: "0 < n" by simp
    have b1: "1 \<le> bitlen n" using n0 by (simp add: bitlen_alt_def)
    have e: "ilog2 x = bitlen n - 1" using True by (simp add: ilog2_def n_def)
    note bb = bitlen_bounds [OF n0]
    have "(2::rat) powi (bitlen n - 1) = of_int (2 ^ nat (bitlen n - 1))"
      using b1 by (simp add: power_int_def)
    also have "\<dots> \<le> of_int n"
      using bb by (simp only: of_int_le_iff)
    also have "\<dots> \<le> x"
      by (simp add: n_def)
    finally have lo: "2 powi (ilog2 x) \<le> x" by (simp add: e)
    have "n + 1 \<le> 2 ^ nat (bitlen n)" using bb by simp
    then have "(of_int (n + 1) :: rat) \<le> of_int (2 ^ nat (bitlen n))"
      by (simp only: of_int_le_iff)
    moreover have "x < of_int (n + 1)"
      unfolding n_def by linarith
    ultimately have "x < of_int (2 ^ nat (bitlen n))" by (rule less_le_trans [rotated])
    also have "\<dots> = 2 powi (bitlen n)"
      using b1 by (simp add: power_int_def)
    finally have "x < 2 powi (ilog2 x + 1)" by (simp add: e)
    with lo show ?thesis by simp
  next
    case False
    define c where "c = \<lceil>1 / x\<rceil>"
    define m where "m = bitlen (c - 1)"
    have y1: "1 < 1 / x" using False assms by simp
    have c2: "2 \<le> c" using y1 unfolding c_def by linarith
    then have c0: "0 < c - 1" by simp
    have m1: "1 \<le> m" using c0 by (simp add: m_def bitlen_alt_def)
    have e: "ilog2 x = - m" using False by (simp add: ilog2_def m_def c_def)
    note bb = bitlen_bounds [OF c0, folded m_def]
    have "c \<le> 2 ^ nat m" using bb by simp
    then have "(of_int c :: rat) \<le> of_int (2 ^ nat m)" by (simp only: of_int_le_iff)
    then have "(of_int c :: rat) \<le> 2 ^ nat m" by simp
    moreover have "1 / x \<le> of_int c" by (simp add: c_def)
    ultimately have "1 / x \<le> 2 ^ nat m" by (rule order_trans [rotated])
    then have "1 \<le> 2 ^ nat m * x" using assms by (simp add: field_simps)
    then have "inverse (2 ^ nat m) \<le> x" by (simp add: field_simps)
    moreover have "(2::rat) powi (- m) = inverse (2 ^ nat m)"
    proof -
      have "(2::rat) powi (- m) = inverse (2 powi m)" by (rule power_int_minus)
      also have "(2::rat) powi m = 2 ^ nat m" using m1 by (simp add: power_int_def)
      finally show ?thesis .
    qed
    ultimately have lo: "2 powi (ilog2 x) \<le> x" by (simp add: e)
    have "(of_int (2 ^ nat (m - 1)) :: rat) \<le> of_int (c - 1)"
      using bb by (simp only: of_int_le_iff)
    then have "(2::rat) ^ nat (m - 1) \<le> of_int (c - 1)" by simp
    moreover have "of_int (c - 1) < 1 / x" unfolding c_def by linarith
    ultimately have "2 ^ nat (m - 1) < 1 / x" by (rule le_less_trans)
    then have "2 ^ nat (m - 1) * x < 1" using assms by (simp add: field_simps)
    then have "x < inverse (2 ^ nat (m - 1))" by (simp add: field_simps)
    moreover have "(2::rat) powi (- m + 1) = inverse (2 ^ nat (m - 1))"
    proof -
      have "(2::rat) powi (- m + 1) = 2 powi (- (m - 1))" by simp
      also have "\<dots> = inverse (2 powi (m - 1))" by (rule power_int_minus)
      also have "(2::rat) powi (m - 1) = 2 ^ nat (m - 1)" using m1 by (simp add: power_int_def)
      finally show ?thesis .
    qed
    ultimately have "x < 2 powi (ilog2 x + 1)" by (simp add: e)
    with lo show ?thesis by simp
  qed
  then show "2 powi (ilog2 x) \<le> x" and "x < 2 powi (ilog2 x + 1)" by simp_all
qed

lemma round_half_even_near: "\<bar>of_int (round_half_even z) - z\<bar> \<le> 1 / 2"
proof -
  have "of_int \<lfloor>z\<rfloor> \<le> z" and "z < of_int \<lfloor>z\<rfloor> + 1"
    by linarith+
  then show ?thesis
    unfolding round_half_even_def Let_def by (auto simp add: abs_le_iff)
qed

lemma fl_nearest:
  assumes "0 < x"
  shows "\<bar>fl p x - x\<bar> \<le> 2 powi (ilog2 x - int p)"
proof -
  define u :: rat where "u = 2 powi (ilog2 x - int p + 1)"
  have u0: "0 < u" by (simp add: u_def)
  have "fl p x - x = (of_int (round_half_even (x / u)) - x / u) * u"
    using u0 fl_pos_eq [OF assms, of p] by (simp add: u_def field_simps)
  then have "\<bar>fl p x - x\<bar> = \<bar>of_int (round_half_even (x / u)) - x / u\<bar> * u"
    using u0 by (simp add: abs_mult)
  also have "\<dots> \<le> (1 / 2) * u"
    using round_half_even_near [of "x / u"] u0 by (intro mult_right_mono) simp_all
  also have "\<dots> = 2 powi (ilog2 x - int p)"
    unfolding u_def by (simp add: power_int_add)
  finally show ?thesis .
qed

lemma fl53_grid:
  assumes "0 \<le> x" "x < 2 ^ 23"
  shows "of_int k * 2 powi (- 30) \<le> x \<Longrightarrow> of_int k * 2 powi (- 30) \<le> fl 53 x"
    and "x \<le> of_int k * 2 powi (- 30) \<Longrightarrow> fl 53 x \<le> of_int k * 2 powi (- 30)"
proof -
  have j: "ilog2 x - int 53 + 1 \<le> - 30" if "0 < x"
    using ilog2_le [OF that, of 22] assms(2) by simp
  show "of_int k * 2 powi (- 30) \<le> fl 53 x" if "of_int k * 2 powi (- 30) \<le> x"
  proof (cases "x = 0")
    case True
    with that show ?thesis by (simp add: fl_def)
  next
    case False
    with assms(1) have "0 < x" by simp
    then show ?thesis using that j by (intro fl_ge_grid) simp_all
  qed
  show "fl 53 x \<le> of_int k * 2 powi (- 30)" if "x \<le> of_int k * 2 powi (- 30)"
  proof (cases "x = 0")
    case True
    with that show ?thesis by (simp add: fl_def)
  next
    case False
    with assms(1) have "0 < x" by simp
    then show ?thesis using that j by (intro fl_le_grid) simp_all
  qed
qed

lemma milliwatts_to_watts:
  fixes n :: int
  assumes n: "0 \<le> n" "n < 2 ^ 32"
  shows "\<lfloor>fl 53 (fl 53 (of_int n / 1000) + 1 / 2)\<rfloor> = (n + 500) div 1000"
proof -
  define a where "a = (n + 500) div 1000"
  define x :: rat where "x = of_int n / 1000"
  define lo :: rat where "lo = of_int ((2 * a - 1) * 2 ^ 29) * 2 powi (- 30)"
  define hi :: rat where "hi = of_int ((2 * a + 1) * 2 ^ 29 - 1) * 2 powi (- 30)"
  have lo_eq: "lo = of_int a - 1 / 2"
    by (simp add: lo_def power_int_minus field_simps)
  have hi_eq: "hi = of_int a + 1 / 2 - 1 / 2 ^ 30"
    by (simp add: hi_def power_int_minus field_simps)
  have a0: "0 \<le> a" using n by (simp add: a_def)
  have a_hi: "a \<le> 4294967" using n by (simp add: a_def)
  have a1: "1000 * a \<le> n + 500" and a2: "n + 500 \<le> 1000 * a + 999"
    by (simp_all add: a_def) 
  have x0: "0 \<le> x" using n by (simp add: x_def)
  have "of_int n < (2 ^ 32 :: rat)" using n(2) by (metis of_int_less_iff of_int_numeral of_int_power)
  then have x23: "x < 2 ^ 23" by (simp add: x_def)
  have "of_int (1000 * a) \<le> (of_int (n + 500) :: rat)" using a1 by (simp only: of_int_le_iff)
  then have xlo: "lo \<le> x" by (simp add: lo_eq x_def)
  have "(of_int (n + 500) :: rat) \<le> of_int (1000 * a + 999)" using a2 by (simp only: of_int_le_iff)
  then have "x \<le> of_int a + 499 / 1000" by (simp add: x_def)
  then have xhi: "x \<le> hi" by (simp add: hi_eq)
  have flo: "lo \<le> fl 53 x" and fhi: "fl 53 x \<le> hi"
    using fl53_grid [OF x0 x23] xlo xhi unfolding lo_def hi_def by blast+
  define y where "y = fl 53 x + 1 / 2"
  define lo' :: rat where "lo' = of_int (a * 2 ^ 30) * 2 powi (- 30)"
  define hi' :: rat where "hi' = of_int ((a + 1) * 2 ^ 30 - 1) * 2 powi (- 30)"
  have lo'_eq: "lo' = of_int a"
    by (simp add: lo'_def power_int_minus field_simps)
  have hi'_eq: "hi' = of_int a + 1 - 1 / 2 ^ 30"
    by (simp add: hi'_def power_int_minus field_simps)
  have ylo: "lo' \<le> y" using flo by (simp add: y_def lo_eq lo'_eq)
  have yhi: "y \<le> hi'" using fhi by (simp add: y_def hi_eq hi'_eq)
  have y0: "0 \<le> y" using ylo a0 by (simp add: lo'_eq)
  have "(of_int a :: rat) \<le> 4294967" using a_hi by (metis of_int_le_iff of_int_numeral)
  then have y23: "y < 2 ^ 23" using yhi by (simp add: hi'_eq)
  have "lo' \<le> fl 53 y" and "fl 53 y \<le> hi'"
    using fl53_grid [OF y0 y23] ylo yhi unfolding lo'_def hi'_def by blast+
  then have "of_int a \<le> fl 53 y" and "fl 53 y < of_int a + 1"
    by (simp_all add: lo'_eq hi'_eq)
  then have "\<lfloor>fl 53 y\<rfloor> = a"
    by (simp add: floor_unique)
  then show ?thesis
    by (simp add: y_def x_def a_def)
qed


section \<open>GPU power\<close>

lemma round_half_up_milli: "round_half_up (of_int n / 1000) = (n + 500) div 1000"
proof -
  have "(of_int n :: rat) / 1000 + 1 / 2 = of_int (n + 500) / of_int 1000"
    by simp
  then show ?thesis
    unfolding round_half_up_def by (simp only: floor_divide_of_int_eq)
qed

lemma function2_Power:
  assumes "nvmlInitialized st" "nvmlDeviceGetHandleByIndex h 0 = (NVML_SUCCESS, device)"
    "nvmlDeviceGetPowerUsage h device = (NVML_SUCCESS, p)"
  shows "function2 h st ''Power'' param2 =
    Some (dec (nat (round_half_up (of_int (uint p) / 1000))) @ (if param2 = ''1'' then ''W'' else []))"
proof -
  define a where "a = (uint p + 500) div 1000"
  define z where "z = fl 53 (fl 53 (of_int (uint p) / 1000) + 1 / 2)"
  have p32: "uint p < 2 ^ 32"
    using uint_lt2p [of p] by simp
  have fz: "\<lfloor>z\<rfloor> = a"
    unfolding z_def a_def using p32 by (intro milliwatts_to_watts) simp_all
  have p0: "0 \<le> uint p"
    by simp
  have a0: "0 \<le> a" and a32: "a < 2 ^ 32"
    using p32 p0 unfolding a_def by (simp_all add: pos_imp_zdiv_nonneg_iff)
  have "0 \<le> z"
    using fz a0 by (simp add: zero_le_floor [symmetric] del: zero_le_floor)
  then have t: "trunc z = a"
    using fz by (simp add: trunc_def)
  have conv: "Option.bind (f64_div (of_int (uint p)) 1000) (\<lambda>q. double_to_uint (f64_add q (1 / 2)))
      = Some (word_of_int a)"
    using t a0 a32 by (simp add: f64_div_def f64_add_def double_to_uint_def z_def)
  have u: "uint (word_of_int a :: 32 word) = a"
    using a0 a32 by (simp add: uint_word_of_int take_bit_int_eq_self)
  have pr: "printf_u a = dec (nat a)"
    using a0 a32 by (simp add: printf_u_def)
  have len: "length (dec (nat a)) \<le> 10"
    by (rule length_dec_le) (use a0 a32 in simp_all)
  have conv': "Option.bind (f64_div (unsigned p) 1000) (\<lambda>q. double_to_uint (f64_add q (1 / 2)))
      = Some (word_of_int a)"
    using conv by simp
  have r: "round_half_up (unsigned p / 1000) = a"
    using round_half_up_milli [of "uint p"] by (simp add: a_def)
  show ?thesis
    using assms len
    by (simp add: function2_def checkNvmlInitialized_def snprintf_def sizeof_tempStr_def
        Let_def conv' u pr r)
qed

text \<open>
  C5: for every successful power reading \<open>p\<close> (a 32-bit number of milliwatts) the text of
  \<open>Power\<close> is the decimal form of \<open>p / 1000\<close> rounded half up, followed by \<open>W\<close> when the
  flag is \<open>1\<close>. The conversion \<open>(unsigned int)(power / 1000.0 + 0.5)\<close> is carried out in
  double precision with a rounding after the division and after the addition; for every
  32-bit \<open>p\<close> the two roundings leave the truncated result equal to the exact rounding.
\<close>

theorem gpu_power_round_half_up:
  assumes "nvmlInitialized st" "nvmlDeviceGetHandleByIndex h 0 = (NVML_SUCCESS, device)"
    "nvmlDeviceGetPowerUsage h device = (NVML_SUCCESS, p)"
  shows "function2 h st ''Power'' param2 =
    Some (dec (nat (round_half_up (of_int (uint p) / 1000))) @ (if param2 = ''1'' then ''W'' else []))"
  using assms by (rule function2_Power)

theorem gpu_power_round_half_up_witness:
  "function2 (example_host NVML_SUCCESS []) gpu_ready_state ''Power'' ''1'' = Some ''123W''
   \<and> function2 (example_host NVML_SUCCESS []) gpu_ready_state ''Power'' ''0'' = Some ''123''"
proof -
  have i: "nvmlInitialized gpu_ready_state"
    by (simp add: gpu_ready_state_def)
  have d: "nvmlDeviceGetHandleByIndex (example_host NVML_SUCCESS []) 0 = (NVML_SUCCESS, 7)"
    by (simp add: example_host_def)
  have p: "nvmlDeviceGetPowerUsage (example_host NVML_SUCCESS []) 7 = (NVML_SUCCESS, 123456)"
    by (simp add: example_host_def)
  have "round_half_up (of_int 123456 / 1000) = (123456 + 500) div 1000"
    by (rule round_half_up_milli)
  then have r: "round_half_up (of_int (uint (123456 :: 32 word)) / 1000) = 123"
    by simp
  have c: "dec 123 = ''123''"
    by code_simp
  show ?thesis
    using gpu_power_round_half_up [OF i d p, of "''1''"]
      gpu_power_round_half_up [OF i d p, of "''0''"] r c
    by simp
qed

section \<open>The CPU router\<close>

lemma with_monitor_eq:
  "HardwareMonitor_Initialize h st = (None, st') \<Longrightarrow> computer st' = Some c \<Longrightarrow>
   with_monitor h st body = (body (Hardware c), st')"
  by (simp add: with_monitor_def)

lemma float_to_int_0: "float_to_int 0 = Some 0"
  by (simp add: float_to_int_def trunc_def)

lemma printf_u_nat: "0 \<le> n \<Longrightarrow> n < 2 ^ 32 \<Longrightarrow> printf_u n = dec (nat n)"
  by (simp add: printf_u_def)

lemma length_printf_u: "length (printf_u n) \<le> 10"
proof -
  have "nat (n mod 2 ^ 32) < 2 ^ 32"
    using pos_mod_bound [of "2 ^ 32" n] by (simp add: nat_less_iff)
  then have "nat (n mod 2 ^ 32) < 10 ^ 10" by simp
  then show ?thesis
    unfolding printf_u_def by (intro length_dec_le) simp_all
qed

lemma snprintf_short: "length s \<le> 255 \<Longrightarrow> snprintf sizeof_tempStr s = s"
  by (simp add: snprintf_def sizeof_tempStr_def)

lemma snprintf_printf_u [simp]:
  "snprintf sizeof_tempStr (printf_u n) = printf_u n"
  "snprintf sizeof_tempStr (printf_u n @ ''%'') = printf_u n @ ''%''"
  "snprintf sizeof_tempStr (printf_u n @ ''W'') = printf_u n @ ''W''"
  "snprintf sizeof_tempStr (printf_u n @ ''RPM'') = printf_u n @ ''RPM''"
  "snprintf sizeof_tempStr (printf_u n @ degree_sign @ ''C'') = printf_u n @ degree_sign @ ''C''"
  using length_printf_u [of n] by (simp_all add: snprintf_short degree_sign_def)

lemma function1_Load:
  "function1 h st ''Load'' param2 =
     (case GetCpuLoad h st of
        (None, st') \<Rightarrow> (None, st')
      | (Some load, st') \<Rightarrow>
          (Some (if load < 0 then ''Error reading CPU Load''
                 else printf_u load @ (if param2 = ''1'' then ''%'' else [])), st'))"
  by (simp add: function1_def Let_def snprintf_short split: prod.split option.split)

lemma function1_Power:
  "function1 h st ''Power'' param2 =
     (case GetCpuPower h st of
        (None, st') \<Rightarrow> (None, st')
      | (Some tdp, st') \<Rightarrow>
          (Some (if tdp < 0 then ''Error reading CPU Power''
                 else printf_u tdp @ (if param2 = ''1'' then ''W'' else [])), st'))"
  by (simp add: function1_def Let_def snprintf_short split: prod.split option.split)

lemma function1_Temp:
  "function1 h st ''Temp'' param2 =
     (case GetCpuTemperature h st of
        (None, st') \<Rightarrow> (None, st')
      | (Some temp, st') \<Rightarrow>
          (Some (if temp < 0 then ''Error reading CPU Temp''
                 else printf_u temp @ (if param2 = ''1'' then degree_sign @ ''C'' else [])), st'))"
  by (simp add: function1_def Let_def snprintf_short split: prod.split option.split)

lemma function1_Fan_RPM:
  "function1 h st ''Fan_RPM'' param2 =
     (case GetCpuFanSpeedRPM h st CPU_FAN CPU_SPEED of
        (None, st') \<Rightarrow> (None, st')
      | (Some fanSpeedRPM, st') \<Rightarrow>
          (Some (if fanSpeedRPM < 0 then ''Error reading Fan Speed''
                 else printf_u fanSpeedRPM @ (if param2 = ''1'' then ''RPM'' else [])), st'))"
  by (simp add: function1_def Let_def snprintf_short split: prod.split option.split)

lemma function1_Fan:
  "function1 h st ''Fan'' param2 =
     (case GetCpuFanSpeed h st CPU_FAN CPU_SPEED of
        (None, st') \<Rightarrow> (None, st')
      | (Some fanSpeed, st') \<Rightarrow>
          (Some (if fanSpeed < 0 then ''Error reading Fan Speed''
                 else printf_u fanSpeed @ (if param2 = ''1'' then ''%'' else [])), st'))"
  by (simp add: function1_def Let_def snprintf_short split: prod.split option.split)

lemma function1_Clock:
  "function1 h st ''Clock'' param2 =
     (case GetCpuFrequency h st of
        (None, st') \<Rightarrow> (None, st')
      | (Some clock, st') \<Rightarrow>
          (Some (if clock < 0 then ''Error reading CPU clock''
                 else snprintf sizeof_tempStr
                        (printf_f 2 (fl 24 (clock / 1000)) @ (if param2 = ''1'' then ''GHz'' else []))), st'))"
  by (simp add: function1_def Let_def snprintf_short f32_div_def split: prod.split option.split)


section \<open>CPU lookups on a found sensor\<close>

lemma dec_0: "dec 0 = ''0''"
  by (simp add: dec.simps [of 0] digit_char_def)

lemma printf_u_0: "printf_u 0 = ''0''"
  by (simp add: printf_u_def dec_0)

lemma dec_100: "dec 100 = ''100''"
  by code_simp

lemma printf_u_100: "printf_u 100 = ''100''"
  by (simp add: printf_u_def dec_100)

lemma printf_f_2_0: "printf_f 2 0 = ''0.00''"
  by code_simp

lemma fl_0 [simp]: "fl p 0 = 0"
  by (simp add: fl_def)

lemma fl24_1: "fl 24 1 = 1"
  by code_simp

lemma fl24_100: "fl 24 100 = 100"
  by code_simp

lemma float_to_int_100: "float_to_int 100 = Some 100"
  by (simp add: float_to_int_def trunc_def)

lemma is_float32_CPU_SPEED: "is_float32 (of_int CPU_SPEED)"
  unfolding is_float32_def CPU_SPEED_def by code_simp

lemma int_to_float_pos:
  assumes "0 < M"
  shows "0 < int_to_float M"
proof -
  define x :: rat where "x = of_int M"
  have x1: "1 \<le> x" using assms by (simp add: x_def)
  then have x0: "0 < x" by simp
  have e: "ilog2 x = bitlen M - 1"
    using x1 by (simp add: ilog2_def x_def)
  have b: "2 ^ nat (bitlen M - 1) \<le> M"
    using bitlen_bounds [OF assms] by simp
  have b1: "1 \<le> bitlen M"
    using assms by (simp add: bitlen_alt_def)
  have "(2::rat) powi (bitlen M - 1) = 2 ^ nat (bitlen M - 1)"
    using b1 by (simp add: power_int_def)
  also have "\<dots> = of_int (2 ^ nat (bitlen M - 1))"
    by simp
  also have "\<dots> \<le> x"
    unfolding x_def using b by (simp only: of_int_le_iff)
  finally have le: "of_int 1 * 2 powi (bitlen M - 1) \<le> x"
    by simp
  have "of_int 1 * 2 powi (bitlen M - 1) \<le> fl 24 x"
    using x0 le by (rule fl_ge_grid) (simp add: e)
  then have ge: "2 powi (bitlen M - 1) \<le> fl 24 x"
    by simp
  have "0 < (2::rat) powi (bitlen M - 1)"
    by simp
  then have "0 < fl 24 x"
    using ge by (rule less_le_trans)
  then show ?thesis
    by (simp add: int_to_float_def x_def)
qed

lemma fan_percent_full:
  assumes "0 < M" "is_float32 (of_int M)"
  shows "Option.bind (f32_div (of_int M) (int_to_float M)) (\<lambda>q. float_to_int (f32_mul q 100)) = Some 100"
proof -
  have i: "int_to_float M = of_int M"
    using assms(2) by (simp add: is_float32_def int_to_float_def)
  have "(of_int M :: rat) \<noteq> 0"
    using assms(1) by simp
  then have "f32_div (of_int M) (int_to_float M) = Some 1"
    by (simp add: i f32_div_def fl24_1)
  then show ?thesis
    by (simp add: f32_mul_def fl24_100 float_to_int_100)
qed

lemma GetCpuFanSpeed_found:
  assumes "HardwareMonitor_Initialize h st = (None, st')" "computer st' = Some c"
    "fan_scan fanIndex 0 (Hardware c) = Inl s"
  shows "GetCpuFanSpeed h st fanIndex M =
    (if GetValueOrDefault (Value s) 0 = 0 then Some 0
     else Option.bind (f32_div (GetValueOrDefault (Value s) 0) (int_to_float M))
            (\<lambda>q. float_to_int (f32_mul q 100)), st')"
  using assms by (simp add: GetCpuFanSpeed_def with_monitor_eq Let_def)

lemma GetCpuFanSpeedRPM_found:
  assumes "HardwareMonitor_Initialize h st = (None, st')" "computer st' = Some c"
    "fan_scan fanIndex 0 (Hardware c) = Inl s"
  shows "GetCpuFanSpeedRPM h st fanIndex M = (float_to_int (GetValueOrDefault (Value s) 0), st')"
  using assms by (simp add: GetCpuFanSpeedRPM_def with_monitor_eq)

lemma float_to_int_range: "float_to_int x = Some n \<Longrightarrow> - (2 ^ 31) \<le> n \<and> n < 2 ^ 31"
  by (auto simp add: float_to_int_def Let_def split: if_splits)

lemma with_monitor_Some:
  "with_monitor h st body = (Some r, st') \<Longrightarrow> \<exists>hw. body hw = Some r"
  by (auto simp add: with_monitor_def split: prod.splits option.splits)

lemma GetCpuFanSpeed_range:
  assumes "GetCpuFanSpeed h st fanIndex M = (Some n, st')"
  shows "n < 2 ^ 31"
proof -
  obtain hw where "(case fan_scan fanIndex 0 hw of
       Inl subSensor \<Rightarrow>
         (let currentSpeed = GetValueOrDefault (Value subSensor) 0 in
          if currentSpeed = 0 then Some 0
          else Option.bind (f32_div currentSpeed (int_to_float M))
                 (\<lambda>q. float_to_int (f32_mul q 100)))
     | Inr _ \<Rightarrow> Some (- 1)) = Some n"
    using with_monitor_Some [OF assms [unfolded GetCpuFanSpeed_def]] by blast
  then show ?thesis
    by (auto simp add: Let_def split: sum.splits if_splits Option.bind_splits
        dest: float_to_int_range)
qed

lemma GetCpuLoad_found:
  assumes "HardwareMonitor_Initialize h st = (None, st')" "computer st' = Some c"
    "cpu_sensor_scan (\<lambda>sensor. SensorType sensor = SensorType_Load \<and> Name sensor = ''CPU Total'')
       (Hardware c) = Some s"
  shows "GetCpuLoad h st = (float_to_int (GetValueOrDefault (Value s) 0), st')"
  using assms by (simp add: GetCpuLoad_def with_monitor_eq)

lemma GetCpuPower_found:
  assumes "HardwareMonitor_Initialize h st = (None, st')" "computer st' = Some c"
    "cpu_sensor_scan (\<lambda>sensor. SensorType sensor = SensorType_Power \<and> sublist ''Package'' (Name sensor))
       (Hardware c) = Some s"
  shows "GetCpuPower h st = (float_to_int (GetValueOrDefault (Value s) 0), st')"
  using assms by (simp add: GetCpuPower_def with_monitor_eq)

lemma GetCpuTemperature_found:
  assumes "HardwareMonitor_Initialize h st = (None, st')" "computer st' = Some c"
    "cpu_sensor_scan (\<lambda>sensor. SensorType sensor = SensorType_Temperature \<and> Name sensor = ''CPU Package'')
       (Hardware c) = Some s"
  shows "GetCpuTemperature h st = (float_to_int (GetValueOrDefault (Value s) 0), st')"
  using assms by (simp add: GetCpuTemperature_def with_monitor_eq)

lemma GetCpuFrequency_found:
  assumes "HardwareMonitor_Initialize h st = (None, st')" "computer st' = Some c"
    "cpu_sensor_scan (\<lambda>sensor. SensorType sensor = SensorType_Clock \<and> Name sensor = ''CPU Core #1'')
       (Hardware c) = Some s"
  shows "GetCpuFrequency h st = (Some (GetValueOrDefault (Value s) 0), st')"
  using assms by (simp add: GetCpuFrequency_def with_monitor_eq)

lemma example_Initialize:
  "HardwareMonitor_Initialize (example_host r hw) initial_state = (None, opened_state hw)"
  by (simp add: HardwareMonitor_Initialize_def example_host_def initial_state_def
      opened_state_def opened_computer_def)

lemma example_computer: "computer (opened_state hw) = Some (opened_computer hw)"
  by (simp add: opened_state_def)

lemma example_fan_scan:
  "fan_scan CPU_FAN 0 (Hardware (opened_computer (example_machine cv fv))) = Inl (fan_sensor ''Fan #3'' fv)"
  by (simp add: opened_computer_def example_machine_def CPU_FAN_def fan_sensor_def)

lemma example_load_scan:
  "cpu_sensor_scan (\<lambda>sensor. SensorType sensor = SensorType_Load \<and> Name sensor = ''CPU Total'')
     (Hardware (opened_computer (example_machine cv fv)))
   = Some \<lparr>SensorType = SensorType_Load, Name = ''CPU Total'', Value = cv\<rparr>"
  by (simp add: opened_computer_def example_machine_def)

lemma example_power_scan:
  "cpu_sensor_scan (\<lambda>sensor. SensorType sensor = SensorType_Power \<and> sublist ''Package'' (Name sensor))
     (Hardware (opened_computer (example_machine cv fv)))
   = Some \<lparr>SensorType = SensorType_Power, Name = ''CPU Package'', Value = cv\<rparr>"
proof -
  have "sublist ''Package'' ''CPU Package''"
    by code_simp
  then show ?thesis
    by (simp add: opened_computer_def example_machine_def)
qed

lemma example_temperature_scan:
  "cpu_sensor_scan (\<lambda>sensor. SensorType sensor = SensorType_Temperature \<and> Name sensor = ''CPU Package'')
     (Hardware (opened_computer (example_machine cv fv)))
   = Some \<lparr>SensorType = SensorType_Temperature, Name = ''CPU Package'', Value = cv\<rparr>"
  by (simp add: opened_computer_def example_machine_def)

lemma example_clock_scan:
  "cpu_sensor_scan (\<lambda>sensor. SensorType sensor = SensorType_Clock \<and> Name sensor = ''CPU Core #1'')
     (Hardware (opened_computer (example_machine cv fv)))
   = Some \<lparr>SensorType = SensorType_Clock, Name = ''CPU Core #1'', Value = cv\<rparr>"
  by (simp add: opened_computer_def example_machine_def)

section \<open>The rounding error of the fan percentage\<close>

text \<open>
  Rounding is odd, \<open>fl p (- x) = - fl p x\<close>, and moves a value by at most \<open>2 ^ - p\<close> of its
  magnitude. Truncation is monotone, so two values that are at most 1 apart truncate to
  integers that are at most 1 apart.
\<close>

lemma round_half_even_minus: "round_half_even (- z) = - round_half_even z"
proof (cases "z = of_int \<lfloor>z\<rfloor>")
  case True
  then obtain k where z: "z = of_int k" ..
  show ?thesis unfolding z by (simp add: round_half_even_def flip: of_int_minus)
next
  case False
  have a: "of_int \<lfloor>z\<rfloor> \<le> z" "z < of_int \<lfloor>z\<rfloor> + 1" by linarith+
  with False have lt: "of_int \<lfloor>z\<rfloor> < z" by linarith
  have f: "\<lfloor>- z\<rfloor> = - \<lfloor>z\<rfloor> - 1"
    using lt a(2) by (simp add: floor_unique)
  show ?thesis
    unfolding round_half_even_def Let_def f using lt a(2)
    by (auto simp add: field_simps)
qed

lemma fl_minus: "fl p (- x) = - fl p x"
  by (simp add: fl_def Let_def round_half_even_minus)

lemma fl_rel_pos:
  assumes "0 < x"
  shows "\<bar>fl p x - x\<bar> \<le> x / 2 ^ p"
proof -
  have "\<bar>fl p x - x\<bar> \<le> 2 powi (ilog2 x - int p)"
    using assms by (rule fl_nearest)
  also have "\<dots> = 2 powi (ilog2 x) / 2 ^ p"
    by (simp add: power_int_diff)
  also have "\<dots> \<le> x / 2 ^ p"
    using ilog2_bounds(1) [OF assms] by (simp add: divide_right_mono)
  finally show ?thesis .
qed

lemma fl_rel: "\<bar>fl p x - x\<bar> \<le> \<bar>x\<bar> / 2 ^ p"
proof -
  consider "x = 0" | "0 < x" | "x < 0" by linarith
  then show ?thesis
  proof cases
    case 1
    then show ?thesis by simp
  next
    case 2
    then show ?thesis using fl_rel_pos [OF 2, of p] by simp
  next
    case 3
    then have "0 < - x" by simp
    from fl_rel_pos [OF this, of p] show ?thesis
      using 3 by (simp add: fl_minus abs_minus_commute)
  qed
qed

lemma fl24_bounds:
  assumes "0 < t"
  shows "t * (16777215 / 16777216) \<le> fl 24 t" and "fl 24 t \<le> t * (16777217 / 16777216)"
proof -
  have "\<bar>fl 24 t - t\<bar> \<le> \<bar>t\<bar> / 2 ^ 24"
    by (rule fl_rel)
  then have "\<bar>fl 24 t - t\<bar> \<le> t / 16777216"
    using assms by simp
  then show "t * (16777215 / 16777216) \<le> fl 24 t" and "fl 24 t \<le> t * (16777217 / 16777216)"
    by linarith+
qed

lemma trunc_of_int: "trunc (of_int k) = k"
  by (simp add: trunc_def)

lemma trunc_mono: "x \<le> y \<Longrightarrow> trunc x \<le> trunc y"
proof -
  assume le: "x \<le> y"
  have a: "\<lfloor>x\<rfloor> \<le> \<lfloor>y\<rfloor>" "\<lceil>x\<rceil> \<le> \<lceil>y\<rceil>"
    using le by (simp_all add: floor_mono ceiling_mono)
  have b: "\<lceil>x\<rceil> \<le> \<lfloor>y\<rfloor>" if "x < 0" "\<not> y < 0"
  proof -
    have "\<lceil>x\<rceil> \<le> 0" using that(1) by (simp add: ceiling_le_iff)
    moreover have "0 \<le> \<lfloor>y\<rfloor>" using that(2) by simp
    ultimately show ?thesis by (rule order_trans)
  qed
  show ?thesis
    using le a b unfolding trunc_def by auto
qed

lemma trunc_near:
  assumes "\<bar>r - x\<bar> \<le> 1"
  shows "\<bar>trunc r - trunc x\<bar> \<le> 1"
  using assms unfolding trunc_def by (auto simp add: abs_le_iff; linarith)

lemma trunc_range:
  assumes "\<bar>x\<bar> \<le> 2 ^ 22"
  shows "- 4194304 \<le> trunc x" and "trunc x \<le> 4194304"
proof -
  note lower = trunc_mono [of "of_int (- 4194304)" x, unfolded trunc_of_int]
  note upper = trunc_mono [of x "of_int 4194304", unfolded trunc_of_int]
  have "of_int (- 4194304) \<le> x" "x \<le> of_int 4194304"
    using assms by (simp_all add: abs_le_iff)
  then show "- 4194304 \<le> trunc x" and "trunc x \<le> 4194304"
    using lower upper by blast+
qed

text \<open>
  The percentage passes through three roundings: the conversion of the maximum speed, the
  division and the multiplication. Together they move the product by less than \<open>2 ^ - 22\<close>
  of its magnitude.
\<close>

lemma fan_product_error_pos:
  assumes M: "0 < M" and v: "0 < v"
  shows "\<bar>fl 24 (fl 24 (v / int_to_float M) * 100) - v / of_int M * 100\<bar> \<le> v / of_int M * 100 / 2 ^ 22"
proof -
  define a :: rat where "a = 16777215 / 16777216"
  define b :: rat where "b = 16777217 / 16777216"
  define Mr :: rat where "Mr = of_int M"
  define Mf where "Mf = int_to_float M"
  define y where "y = v / Mf"
  define q where "q = fl 24 y"
  define z where "z = q * 100"
  define r where "r = fl 24 z"
  define x where "x = v / Mr * 100"
  have a0: "0 < a" and b0: "0 < b" by (simp_all add: a_def b_def)
  have Mr0: "0 < Mr" using M by (simp add: Mr_def)
  have Mf: "Mr * a \<le> Mf" "Mf \<le> Mr * b"
    using fl24_bounds [OF Mr0] by (simp_all add: Mf_def int_to_float_def Mr_def a_def b_def)
  have Mra0: "0 < Mr * a" using Mr0 a0 by simp
  then have Mf0: "0 < Mf" using Mf(1) by (rule less_le_trans)
  have y0: "0 < y" using v Mf0 by (simp add: y_def)
  have q: "y * a \<le> q" "q \<le> y * b"
    using fl24_bounds [OF y0] by (simp_all add: q_def a_def b_def)
  have "0 < y * a" using y0 a0 by simp
  then have q0: "0 < q" using q(1) by (rule less_le_trans)
  have z0: "0 < z" using q0 by (simp add: z_def)
  have r: "z * a \<le> r" "r \<le> z * b"
    using fl24_bounds [OF z0] by (simp_all add: r_def a_def b_def)
  have x0: "0 < x" using v Mr0 by (simp add: x_def)
  have yu: "y \<le> v / (Mr * a)"
    unfolding y_def using v Mf(1) Mra0 by (simp add: frac_le)
  have yl: "v / (Mr * b) \<le> y"
    unfolding y_def using v Mf(2) Mf0 by (simp add: frac_le)
  have "r \<le> z * b" by (rule r(2))
  also have "\<dots> = q * (100 * b)" by (simp add: z_def)
  also have "\<dots> \<le> (y * b) * (100 * b)"
    using q(2) b0 by (intro mult_right_mono) simp_all
  also have "\<dots> = y * (100 * b * b)" by simp
  also have "\<dots> \<le> (v / (Mr * a)) * (100 * b * b)"
    using yu b0 by (intro mult_right_mono) simp_all
  also have "\<dots> = x * (b * b / a)"
    using Mr0 a0 by (simp add: x_def field_simps)
  also have "\<dots> \<le> x * (1 + 1 / 2 ^ 22)"
    using x0 by (intro mult_left_mono) (simp_all add: a_def b_def)
  finally have up: "r - x \<le> x / 4194304"
    by (simp add: field_simps)
  have "x * (1 - 1 / 2 ^ 22) \<le> x * (a * a / b)"
    using x0 by (intro mult_left_mono) (simp_all add: a_def b_def)
  also have "\<dots> = (v / (Mr * b)) * (100 * a * a)"
    using Mr0 b0 by (simp add: x_def field_simps)
  also have "\<dots> \<le> y * (100 * a * a)"
    using yl a0 by (intro mult_right_mono) simp_all
  also have "\<dots> = (y * a) * (100 * a)" by simp
  also have "\<dots> \<le> q * (100 * a)"
    using q(1) a0 by (intro mult_right_mono) simp_all
  also have "\<dots> = z * a" by (simp add: z_def)
  also have "\<dots> \<le> r" by (rule r(1))
  finally have lo: "x - r \<le> x / 4194304"
    by (simp add: field_simps)
  have "\<bar>r - x\<bar> \<le> x / 4194304"
    using up lo by linarith
  then show ?thesis
    unfolding r_def z_def q_def y_def Mf_def x_def Mr_def by simp
qed

lemma fan_product_error:
  assumes M: "0 < M" and v: "v \<noteq> 0"
  shows "\<bar>fl 24 (fl 24 (v / int_to_float M) * 100) - v / of_int M * 100\<bar> \<le> \<bar>v / of_int M * 100\<bar> / 2 ^ 22"
proof (cases "0 < v")
  case True
  then have "0 \<le> v / of_int M * 100" using M by simp
  then have "\<bar>v / of_int M * 100\<bar> = v / of_int M * 100"
    by (rule abs_of_nonneg)
  then show ?thesis
    using fan_product_error_pos [OF M True] by (simp only:)
next
  case False
  with v have n: "0 < - v" by simp
  have "fl 24 (- v / int_to_float M) = - fl 24 (v / int_to_float M)"
    using fl_minus [of 24 "v / int_to_float M"] by simp
  then have e: "fl 24 (fl 24 (v / int_to_float M) * 100) = - fl 24 (fl 24 (- v / int_to_float M) * 100)"
    using fl_minus [of 24 "fl 24 (v / int_to_float M) * 100"] by simp
  have "v / of_int M * 100 \<le> 0"
    using n M by (simp add: divide_nonpos_pos)
  then have "\<bar>v / of_int M * 100\<bar> = - (v / of_int M * 100)"
    by (rule abs_of_nonpos)
  then have x: "\<bar>v / of_int M * 100\<bar> = - v / of_int M * 100"
    by simp
  have "\<bar>fl 24 (fl 24 (v / int_to_float M) * 100) - v / of_int M * 100\<bar>
      = \<bar>fl 24 (fl 24 (- v / int_to_float M) * 100) - (- v) / of_int M * 100\<bar>"
    unfolding e by (simp add: abs_minus_commute)
  also have "\<dots> \<le> (- v) / of_int M * 100 / 2 ^ 22"
    by (rule fan_product_error_pos [OF M n])
  finally show ?thesis
    unfolding x by simp
qed

lemma exact_percentage_bound:
  assumes "0 < M" "\<bar>v :: rat\<bar> * 100 \<le> 2 ^ 22 * of_int M"
  shows "\<bar>v / of_int M * 100\<bar> \<le> 2 ^ 22"
proof -
  have Mr0: "(0::rat) < of_int M" using assms(1) by simp
  have "\<bar>v / of_int M * 100\<bar> = \<bar>v\<bar> * 100 / of_int M"
    using Mr0 by (simp add: abs_mult abs_divide)
  also have "\<dots> \<le> 2 ^ 22"
    using assms(2) Mr0 by (simp add: pos_divide_le_eq)
  finally show ?thesis .
qed

lemma fan_percent_near:
  assumes M: "0 < M" and v: "v \<noteq> 0" and b: "\<bar>v\<bar> * 100 \<le> 2 ^ 22 * of_int M"
  shows "\<exists>n. Option.bind (f32_div v (int_to_float M)) (\<lambda>q. float_to_int (f32_mul q 100)) = Some n
           \<and> exact_fan_percentage (v - \<bar>v\<bar> / 2 ^ 22) M \<le> n
           \<and> n \<le> exact_fan_percentage (v + \<bar>v\<bar> / 2 ^ 22) M
           \<and> \<bar>n - exact_fan_percentage v M\<bar> \<le> 1"
proof -
  define r where "r = fl 24 (fl 24 (v / int_to_float M) * 100)"
  define x where "x = v / of_int M * 100"
  have Mr0: "(0::rat) < of_int M" using M by simp
  have xb: "\<bar>x\<bar> \<le> 2 ^ 22"
    unfolding x_def using M b by (rule exact_percentage_bound)
  have err: "\<bar>r - x\<bar> \<le> \<bar>x\<bar> / 2 ^ 22"
    unfolding r_def x_def by (rule fan_product_error [OF M v])
  also have "\<dots> \<le> 1"
    using xb by simp
  finally have near: "\<bar>r - x\<bar> \<le> 1" .
  then have n: "\<bar>trunc r - trunc x\<bar> \<le> 1"
    by (rule trunc_near)
  have "- (2 ^ 31) \<le> trunc r" "trunc r < 2 ^ 31"
    using n trunc_range [OF xb] by simp_all
  then have f: "float_to_int r = Some (trunc r)"
    by (simp add: float_to_int_def Let_def)
  have "int_to_float M \<noteq> 0"
    using int_to_float_pos [OF M] by simp
  then have res: "Option.bind (f32_div v (int_to_float M)) (\<lambda>q. float_to_int (f32_mul q 100)) = Some (trunc r)"
    using f by (simp add: f32_div_def f32_mul_def r_def)
  have ax: "\<bar>x\<bar> = \<bar>v\<bar> / of_int M * 100"
    using Mr0 by (simp add: x_def abs_mult abs_divide)
  have "(v - \<bar>v\<bar> / 2 ^ 22) / of_int M * 100 = x - \<bar>x\<bar> / 2 ^ 22"
    unfolding ax using Mr0 by (simp add: x_def field_simps)
  also have "\<dots> \<le> r"
    using err by linarith
  finally have "trunc ((v - \<bar>v\<bar> / 2 ^ 22) / of_int M * 100) \<le> trunc r"
    by (rule trunc_mono)
  then have lo: "exact_fan_percentage (v - \<bar>v\<bar> / 2 ^ 22) M \<le> trunc r"
    by (simp only: exact_fan_percentage_def)
  have "r \<le> x + \<bar>x\<bar> / 2 ^ 22"
    using err by linarith
  also have "\<dots> = (v + \<bar>v\<bar> / 2 ^ 22) / of_int M * 100"
    unfolding ax using Mr0 by (simp add: x_def field_simps)
  finally have "trunc r \<le> trunc ((v + \<bar>v\<bar> / 2 ^ 22) / of_int M * 100)"
    by (rule trunc_mono)
  then have up: "trunc r \<le> exact_fan_percentage (v + \<bar>v\<bar> / 2 ^ 22) M"
    by (simp only: exact_fan_percentage_def)
  have "\<bar>trunc r - exact_fan_percentage v M\<bar> \<le> 1"
    using n by (simp only: exact_fan_percentage_def x_def)
  with res lo up show ?thesis
    by blast
qed

lemma fan_percent_exact:
  assumes M: "0 < M" "is_float32 (of_int M)" and v: "v \<noteq> 0"
    and q: "is_float32 (v / of_int M)" and p: "is_float32 (v / of_int M * 100)"
    and b: "\<bar>v\<bar> * 100 \<le> 2 ^ 22 * of_int M"
  shows "Option.bind (f32_div v (int_to_float M)) (\<lambda>q. float_to_int (f32_mul q 100))
           = Some (exact_fan_percentage v M)"
proof -
  have i: "int_to_float M = of_int M"
    using M(2) by (simp add: is_float32_def int_to_float_def)
  have Mr0: "(0::rat) < of_int M" using M(1) by simp
  define x where "x = v / of_int M * 100"
  have xb: "\<bar>x\<bar> \<le> 2 ^ 22"
    unfolding x_def using M(1) b by (rule exact_percentage_bound)
  have f: "float_to_int x = Some (trunc x)"
    using trunc_range [OF xb] by (simp add: float_to_int_def Let_def)
  have "fl 24 (v / of_int M) = v / of_int M" "fl 24 (v / of_int M * 100) = v / of_int M * 100"
    using q p by (simp_all add: is_float32_def)
  then show ?thesis
    using Mr0 f by (simp add: i f32_div_def f32_mul_def exact_fan_percentage_def x_def)
qed

section \<open>CPU fan percentage\<close>

text \<open>
  C7, as the claim states it, fails where a rounding falls below the exact value. The
  fan at the configured index reports 954 and the maximum is 1800: the exact percentage
  is 53, the single-precision quotient lies below 0.53, its product with 100 lies below
  53, and the lookup returns 52.
\<close>

theorem fan_percentage_rounding_counterexample:
  "fan_scan CPU_FAN 0 (example_machine (Some 37) (Some 954)) = Inl (fan_sensor ''Fan #3'' (Some 954))
   \<and> GetCpuFanSpeed (example_host NVML_SUCCESS (example_machine (Some 37) (Some 954))) initial_state
       CPU_FAN CPU_SPEED
     = (Some 52, opened_state (example_machine (Some 37) (Some 954)))
   \<and> fst (function1 (example_host NVML_SUCCESS (example_machine (Some 37) (Some 954))) initial_state
            ''Fan'' ''0'') = Some ''52''
   \<and> fst (function1 (example_host NVML_SUCCESS (example_machine (Some 37) (Some 954))) initial_state
            ''Fan'' ''1'') = Some ''52%''
   \<and> exact_fan_percentage 954 CPU_SPEED = 53"
proof -
  have s: "fan_scan CPU_FAN 0 (example_machine (Some 37) (Some 954)) = Inl (fan_sensor ''Fan #3'' (Some 954))"
    using example_fan_scan [of "Some 37" "Some 954"] by (simp add: opened_computer_def)
  have c: "Option.bind (f32_div 954 (int_to_float 1800)) (\<lambda>q. float_to_int (f32_mul q 100)) = Some 52"
    by code_simp
  have g: "GetCpuFanSpeed (example_host NVML_SUCCESS (example_machine (Some 37) (Some 954))) initial_state
      CPU_FAN CPU_SPEED = (Some 52, opened_state (example_machine (Some 37) (Some 954)))"
    using GetCpuFanSpeed_found [OF example_Initialize example_computer example_fan_scan,
        of NVML_SUCCESS "Some 37" "Some 954" CPU_SPEED] c
    by (simp add: fan_sensor_def GetValueOrDefault_def CPU_SPEED_def)
  have d: "printf_u 52 = ''52''"
    unfolding printf_u_def by code_simp
  have e: "exact_fan_percentage 954 CPU_SPEED = 53"
    unfolding exact_fan_percentage_def CPU_SPEED_def by code_simp
  have r0: "fst (function1 (example_host NVML_SUCCESS (example_machine (Some 37) (Some 954))) initial_state
            ''Fan'' ''0'') = Some ''52''"
    using g d by (simp add: function1_Fan)
  have r1: "fst (function1 (example_host NVML_SUCCESS (example_machine (Some 37) (Some 954))) initial_state
            ''Fan'' ''1'') = Some ''52%''"
    using g d by (simp add: function1_Fan)
  from s g r0 r1 e show ?thesis
    by (intro conjI)
qed

text \<open>
  C7 with the third case stated for the arithmetic of the code: let \<open>s\<close> be the fan sensor
  that the scan reaches at the configured index, on a monitor that opens without an
  exception. If \<open>s\<close> reports exactly 0, \<open>GetCpuFanSpeed\<close> returns 0 for every maximum \<open>M\<close>
  and the router answers \<open>0\<close>, or \<open>0%\<close> with units. If \<open>s\<close> reports exactly \<open>M > 0\<close> (a
  value that a \<open>float\<close> holds), \<open>GetCpuFanSpeed\<close> returns 100, and with the compiled
  maximum \<open>CPU_SPEED\<close> the router answers \<open>100\<close>, or \<open>100%\<close> with units. For any other
  reading \<open>v\<close> whose exact percentage is at most \<open>2 ^ 22\<close> in magnitude the lookup returns
  a value that lies between the exact truncated percentages of the readings
  \<open>v - \<bar>v\<bar> / 2 ^ 22\<close> and \<open>v + \<bar>v\<bar> / 2 ^ 22\<close>, and so differs from the exact truncated
  percentage of \<open>v\<close> by at most one; it is the exact truncated percentage when \<open>M\<close>, the
  quotient \<open>v / M\<close> and its product with 100 are single-precision values. The router
  prints a result that is not negative in decimal, with \<open>%\<close> appended when units are on.
\<close>

theorem fan_percentage:
  assumes "HardwareMonitor_Initialize h st = (None, st')" "computer st' = Some c"
  shows
   "(fan_scan fanIndex 0 (Hardware c) = Inl s \<and> Value s = Some 0
       \<longrightarrow> GetCpuFanSpeed h st fanIndex M = (Some 0, st'))
    \<and> (fan_scan fanIndex 0 (Hardware c) = Inl s \<and> 0 < M \<and> Value s = Some (of_int M)
         \<and> is_float32 (of_int M)
       \<longrightarrow> GetCpuFanSpeed h st fanIndex M = (Some 100, st'))
    \<and> (fan_scan fanIndex 0 (Hardware c) = Inl s \<and> 0 < M \<and> Value s = Some v \<and> v \<noteq> 0
         \<and> \<bar>v\<bar> * 100 \<le> 2 ^ 22 * of_int M
       \<longrightarrow> (\<exists>n. GetCpuFanSpeed h st fanIndex M = (Some n, st')
              \<and> exact_fan_percentage (v - \<bar>v\<bar> / 2 ^ 22) M \<le> n
              \<and> n \<le> exact_fan_percentage (v + \<bar>v\<bar> / 2 ^ 22) M
              \<and> \<bar>n - exact_fan_percentage v M\<bar> \<le> 1))
    \<and> (fan_scan fanIndex 0 (Hardware c) = Inl s \<and> 0 < M \<and> Value s = Some v \<and> v \<noteq> 0
         \<and> \<bar>v\<bar> * 100 \<le> 2 ^ 22 * of_int M
         \<and> is_float32 (of_int M) \<and> is_float32 (v / of_int M) \<and> is_float32 (v / of_int M * 100)
       \<longrightarrow> GetCpuFanSpeed h st fanIndex M = (Some (exact_fan_percentage v M), st'))
    \<and> (fan_scan CPU_FAN 0 (Hardware c) = Inl s \<and> Value s = Some 0
       \<longrightarrow> function1 h st ''Fan'' ''0'' = (Some ''0'', st')
           \<and> function1 h st ''Fan'' ''1'' = (Some ''0%'', st'))
    \<and> (fan_scan CPU_FAN 0 (Hardware c) = Inl s \<and> Value s = Some (of_int CPU_SPEED)
       \<longrightarrow> function1 h st ''Fan'' ''0'' = (Some ''100'', st')
           \<and> function1 h st ''Fan'' ''1'' = (Some ''100%'', st'))
    \<and> (GetCpuFanSpeed h st CPU_FAN CPU_SPEED = (Some n, st') \<and> 0 \<le> n
       \<longrightarrow> function1 h st ''Fan'' ''0'' = (Some (dec (nat n)), st')
           \<and> function1 h st ''Fan'' ''1'' = (Some (dec (nat n) @ ''%''), st'))"
proof (intro conjI impI; (elim conjE)?)
  note found = GetCpuFanSpeed_found [OF assms]
  show "GetCpuFanSpeed h st fanIndex M = (Some 0, st')"
    if "fan_scan fanIndex 0 (Hardware c) = Inl s" "Value s = Some 0"
    using found [OF that(1), of M] that(2) by (simp add: GetValueOrDefault_def)
  show "GetCpuFanSpeed h st fanIndex M = (Some 100, st')"
    if "fan_scan fanIndex 0 (Hardware c) = Inl s" "0 < M" "Value s = Some (of_int M)"
      "is_float32 (of_int M)"
    using found [OF that(1), of M] that(2,3) fan_percent_full [OF that(2,4)]
    by (simp add: GetValueOrDefault_def)
  show "\<exists>n. GetCpuFanSpeed h st fanIndex M = (Some n, st')
          \<and> exact_fan_percentage (v - \<bar>v\<bar> / 2 ^ 22) M \<le> n
          \<and> n \<le> exact_fan_percentage (v + \<bar>v\<bar> / 2 ^ 22) M
          \<and> \<bar>n - exact_fan_percentage v M\<bar> \<le> 1"
    if "fan_scan fanIndex 0 (Hardware c) = Inl s" "0 < M" "Value s = Some v" "v \<noteq> 0"
      "\<bar>v\<bar> * 100 \<le> 2 ^ 22 * of_int M"
  proof -
    have "GetCpuFanSpeed h st fanIndex M
        = (Option.bind (f32_div v (int_to_float M)) (\<lambda>q. float_to_int (f32_mul q 100)), st')"
      using found [OF that(1), of M] that(3,4) by (simp add: GetValueOrDefault_def)
    then show ?thesis
      using fan_percent_near [OF that(2,4,5)] by auto
  qed
  show "GetCpuFanSpeed h st fanIndex M = (Some (exact_fan_percentage v M), st')"
    if "fan_scan fanIndex 0 (Hardware c) = Inl s" "0 < M" "Value s = Some v" "v \<noteq> 0"
      "\<bar>v\<bar> * 100 \<le> 2 ^ 22 * of_int M"
      "is_float32 (of_int M)" "is_float32 (v / of_int M)" "is_float32 (v / of_int M * 100)"
    using found [OF that(1), of M] that(3,4) fan_percent_exact [OF that(2,6,4,7,8,5)]
    by (simp add: GetValueOrDefault_def)
  have zero: "GetCpuFanSpeed h st CPU_FAN CPU_SPEED = (Some 0, st')"
    if "fan_scan CPU_FAN 0 (Hardware c) = Inl s" "Value s = Some 0"
    using found [OF that(1), of CPU_SPEED] that(2) by (simp add: GetValueOrDefault_def)
  show "function1 h st ''Fan'' ''0'' = (Some ''0'', st')"
    if "fan_scan CPU_FAN 0 (Hardware c) = Inl s" "Value s = Some 0"
    using zero [OF that] by (simp add: function1_Fan printf_u_0)
  show "function1 h st ''Fan'' ''1'' = (Some ''0%'', st')"
    if "fan_scan CPU_FAN 0 (Hardware c) = Inl s" "Value s = Some 0"
    using zero [OF that] by (simp add: function1_Fan printf_u_0)
  have full: "GetCpuFanSpeed h st CPU_FAN CPU_SPEED = (Some 100, st')"
    if "fan_scan CPU_FAN 0 (Hardware c) = Inl s" "Value s = Some (of_int CPU_SPEED)"
  proof -
    have "0 < CPU_SPEED" by (simp add: CPU_SPEED_def)
    then show ?thesis
      using found [OF that(1), of CPU_SPEED] that(2) fan_percent_full [OF _ is_float32_CPU_SPEED]
      by (simp add: GetValueOrDefault_def)
  qed
  show "function1 h st ''Fan'' ''0'' = (Some ''100'', st')"
    if "fan_scan CPU_FAN 0 (Hardware c) = Inl s" "Value s = Some (of_int CPU_SPEED)"
    using full [OF that] by (simp add: function1_Fan printf_u_100)
  show "function1 h st ''Fan'' ''1'' = (Some ''100%'', st')"
    if "fan_scan CPU_FAN 0 (Hardware c) = Inl s" "Value s = Some (of_int CPU_SPEED)"
    using full [OF that] by (simp add: function1_Fan printf_u_100)
  show "function1 h st ''Fan'' ''0'' = (Some (dec (nat n)), st')"
    if "GetCpuFanSpeed h st CPU_FAN CPU_SPEED = (Some n, st')" "0 \<le> n"
    using that GetCpuFanSpeed_range [OF that(1)] by (simp add: function1_Fan printf_u_nat)
  show "function1 h st ''Fan'' ''1'' = (Some (dec (nat n) @ ''%''), st')"
    if "GetCpuFanSpeed h st CPU_FAN CPU_SPEED = (Some n, st')" "0 \<le> n"
    using that GetCpuFanSpeed_range [OF that(1)] by (simp add: function1_Fan printf_u_nat)
qed

theorem fan_percentage_witness:
  "function1 (example_host NVML_SUCCESS (example_machine (Some 37) (Some 0))) initial_state ''Fan'' ''1''
     = (Some ''0%'', opened_state (example_machine (Some 37) (Some 0)))
   \<and> function1 (example_host NVML_SUCCESS (example_machine (Some 37) (Some 1800))) initial_state ''Fan'' ''1''
     = (Some ''100%'', opened_state (example_machine (Some 37) (Some 1800)))
   \<and> (\<exists>n. GetCpuFanSpeed (example_host NVML_SUCCESS (example_machine (Some 37) (Some 954))) initial_state 2 1800
            = (Some n, opened_state (example_machine (Some 37) (Some 954)))
          \<and> exact_fan_percentage (954 - \<bar>954\<bar> / 2 ^ 22) 1800 \<le> n
          \<and> n \<le> exact_fan_percentage (954 + \<bar>954\<bar> / 2 ^ 22) 1800
          \<and> \<bar>n - exact_fan_percentage 954 1800\<bar> \<le> 1)
   \<and> GetCpuFanSpeed (example_host NVML_SUCCESS (example_machine (Some 37) (Some 900))) initial_state 2 1800
     = (Some 50, opened_state (example_machine (Some 37) (Some 900)))
   \<and> function1 (example_host NVML_SUCCESS (example_machine (Some 37) (Some 900))) initial_state ''Fan'' ''1''
     = (Some ''50%'', opened_state (example_machine (Some 37) (Some 900)))"
proof -
  note a = fan_percentage [OF example_Initialize example_computer]
  have v0: "Value (fan_sensor ''Fan #3'' (Some 0)) = Some 0"
    by (simp add: fan_sensor_def)
  note z = a [THEN conjunct2, THEN conjunct2, THEN conjunct2, THEN conjunct2, THEN conjunct1,
      rule_format, OF conjI, OF example_fan_scan v0]
  have v1: "Value (fan_sensor ''Fan #3'' (Some 1800)) = Some (of_int CPU_SPEED)"
    by (simp add: fan_sensor_def CPU_SPEED_def)
  note f = a [THEN conjunct2, THEN conjunct2, THEN conjunct2, THEN conjunct2, THEN conjunct2,
      THEN conjunct1, rule_format, OF conjI, OF example_fan_scan v1]
  have v2: "fan_scan 2 0 (Hardware (opened_computer (example_machine (Some 37) (Some 954))))
        = Inl (fan_sensor ''Fan #3'' (Some 954))
      \<and> 0 < (1800 :: int) \<and> Value (fan_sensor ''Fan #3'' (Some 954)) = Some 954 \<and> (954 :: rat) \<noteq> 0
      \<and> \<bar>954 :: rat\<bar> * 100 \<le> 2 ^ 22 * of_int 1800"
    using example_fan_scan [of "Some 37" "Some 954"] by (simp add: fan_sensor_def CPU_FAN_def)
  note w = a [THEN conjunct2, THEN conjunct2, THEN conjunct1, rule_format, OF v2]
  have i1: "is_float32 (of_int 1800)" "is_float32 (900 / of_int 1800)"
      "is_float32 (900 / of_int 1800 * 100)"
    unfolding is_float32_def by code_simp+
  have v3: "fan_scan 2 0 (Hardware (opened_computer (example_machine (Some 37) (Some 900))))
        = Inl (fan_sensor ''Fan #3'' (Some 900))
      \<and> 0 < (1800 :: int) \<and> Value (fan_sensor ''Fan #3'' (Some 900)) = Some 900 \<and> (900 :: rat) \<noteq> 0
      \<and> \<bar>900 :: rat\<bar> * 100 \<le> 2 ^ 22 * of_int 1800
      \<and> is_float32 (of_int 1800) \<and> is_float32 (900 / of_int 1800)
      \<and> is_float32 (900 / of_int 1800 * 100)"
    using example_fan_scan [of "Some 37" "Some 900"] i1 by (simp add: fan_sensor_def CPU_FAN_def)
  have x: "exact_fan_percentage 900 1800 = 50"
    unfolding exact_fan_percentage_def by code_simp
  have g: "GetCpuFanSpeed (example_host NVML_SUCCESS (example_machine (Some 37) (Some 900))) initial_state
      2 1800 = (Some 50, opened_state (example_machine (Some 37) (Some 900)))"
    using a [THEN conjunct2, THEN conjunct2, THEN conjunct2, THEN conjunct1, rule_format, OF v3]
    unfolding x .
  have g': "GetCpuFanSpeed (example_host NVML_SUCCESS (example_machine (Some 37) (Some 900))) initial_state
      CPU_FAN CPU_SPEED = (Some 50, opened_state (example_machine (Some 37) (Some 900)))
      \<and> (0::int) \<le> 50"
    using g by (simp add: CPU_FAN_def CPU_SPEED_def)
  have d: "dec 50 = ''50''"
    by code_simp
  have r: "function1 (example_host NVML_SUCCESS (example_machine (Some 37) (Some 900))) initial_state ''Fan'' ''1''
     = (Some ''50%'', opened_state (example_machine (Some 37) (Some 900)))"
    using a [THEN conjunct2, THEN conjunct2, THEN conjunct2, THEN conjunct2, THEN conjunct2,
        THEN conjunct2, rule_format, OF g'] d
    by simp
  from z [THEN conjunct2] f [THEN conjunct2] w g r show ?thesis
    by (intro conjI)
qed

section \<open>CPU sensors without a value\<close>

text \<open>
  C10, as the claim states it, fails for the clock: a found clock sensor without a value
  is formatted with \<open>%.2f\<close>, which gives \<open>0.00\<close> and \<open>0.00GHz\<close>, not \<open>0\<close>.
\<close>

theorem clock_absent_value_counterexample:
  "cpu_sensor_scan (\<lambda>sensor. SensorType sensor = SensorType_Clock \<and> Name sensor = ''CPU Core #1'')
     (example_machine None None)
     = Some \<lparr>SensorType = SensorType_Clock, Name = ''CPU Core #1'', Value = None\<rparr>
   \<and> fst (function1 (example_host NVML_SUCCESS (example_machine None None)) initial_state ''Clock'' ''0'')
     = Some ''0.00''
   \<and> fst (function1 (example_host NVML_SUCCESS (example_machine None None)) initial_state ''Clock'' ''1'')
     = Some ''0.00GHz''"
  by code_simp


text \<open>
  C10, amended: when the sensor that a CPU lookup finds has no value, the lookup returns 0,
  not the sentinel \<open>-1\<close>, and the router formats a valid reading, never an error text:
  \<open>0\<close> for load, power, temperature, fan RPM and fan percentage and \<open>0.00\<close> for the clock,
  each followed by the unit of the metric when units are on.
\<close>

theorem absent_value_reads_as_zero:
  assumes "HardwareMonitor_Initialize h st = (None, st')" "computer st' = Some c"
    and "Value s = None"
  shows
   "(cpu_sensor_scan (\<lambda>sensor. SensorType sensor = SensorType_Load \<and> Name sensor = ''CPU Total'')
       (Hardware c) = Some s
     \<longrightarrow> GetCpuLoad h st = (Some 0, st')
         \<and> function1 h st ''Load'' ''0'' = (Some ''0'', st')
         \<and> function1 h st ''Load'' ''1'' = (Some ''0%'', st'))
    \<and> (cpu_sensor_scan (\<lambda>sensor. SensorType sensor = SensorType_Power \<and> sublist ''Package'' (Name sensor))
       (Hardware c) = Some s
     \<longrightarrow> GetCpuPower h st = (Some 0, st')
         \<and> function1 h st ''Power'' ''0'' = (Some ''0'', st')
         \<and> function1 h st ''Power'' ''1'' = (Some ''0W'', st'))
    \<and> (cpu_sensor_scan (\<lambda>sensor. SensorType sensor = SensorType_Temperature \<and> Name sensor = ''CPU Package'')
       (Hardware c) = Some s
     \<longrightarrow> GetCpuTemperature h st = (Some 0, st')
         \<and> function1 h st ''Temp'' ''0'' = (Some ''0'', st')
         \<and> function1 h st ''Temp'' ''1'' = (Some (''0'' @ degree_sign @ ''C''), st'))
    \<and> (fan_scan CPU_FAN 0 (Hardware c) = Inl s
     \<longrightarrow> GetCpuFanSpeedRPM h st CPU_FAN CPU_SPEED = (Some 0, st')
         \<and> function1 h st ''Fan_RPM'' ''0'' = (Some ''0'', st')
         \<and> function1 h st ''Fan_RPM'' ''1'' = (Some ''0RPM'', st')
         \<and> GetCpuFanSpeed h st CPU_FAN CPU_SPEED = (Some 0, st')
         \<and> function1 h st ''Fan'' ''0'' = (Some ''0'', st')
         \<and> function1 h st ''Fan'' ''1'' = (Some ''0%'', st'))
    \<and> (cpu_sensor_scan (\<lambda>sensor. SensorType sensor = SensorType_Clock \<and> Name sensor = ''CPU Core #1'')
       (Hardware c) = Some s
     \<longrightarrow> GetCpuFrequency h st = (Some 0, st')
         \<and> function1 h st ''Clock'' ''0'' = (Some ''0.00'', st')
         \<and> function1 h st ''Clock'' ''1'' = (Some ''0.00GHz'', st'))"
proof (intro conjI impI)
  have v: "GetValueOrDefault (Value s) 0 = 0"
    using assms(3) by (simp add: GetValueOrDefault_def)
  note init = assms(1,2)
  {
    assume "cpu_sensor_scan (\<lambda>sensor. SensorType sensor = SensorType_Load \<and> Name sensor = ''CPU Total'')
       (Hardware c) = Some s"
    then show l: "GetCpuLoad h st = (Some 0, st')"
      using GetCpuLoad_found [OF init] by (simp add: v float_to_int_0)
    show "function1 h st ''Load'' ''0'' = (Some ''0'', st')"
      by (simp add: function1_Load l printf_u_0)
    show "function1 h st ''Load'' ''1'' = (Some ''0%'', st')"
      by (simp add: function1_Load l printf_u_0)
  }
  {
    assume "cpu_sensor_scan (\<lambda>sensor. SensorType sensor = SensorType_Power \<and> sublist ''Package'' (Name sensor))
       (Hardware c) = Some s"
    then show l: "GetCpuPower h st = (Some 0, st')"
      using GetCpuPower_found [OF init] by (simp add: v float_to_int_0)
    show "function1 h st ''Power'' ''0'' = (Some ''0'', st')"
      by (simp add: function1_Power l printf_u_0)
    show "function1 h st ''Power'' ''1'' = (Some ''0W'', st')"
      by (simp add: function1_Power l printf_u_0)
  }
  {
    assume "cpu_sensor_scan (\<lambda>sensor. SensorType sensor = SensorType_Temperature \<and> Name sensor = ''CPU Package'')
       (Hardware c) = Some s"
    then show l: "GetCpuTemperature h st = (Some 0, st')"
      using GetCpuTemperature_found [OF init] by (simp add: v float_to_int_0)
    show "function1 h st ''Temp'' ''0'' = (Some ''0'', st')"
      by (simp add: function1_Temp l printf_u_0)
    show "function1 h st ''Temp'' ''1'' = (Some (''0'' @ degree_sign @ ''C''), st')"
      by (simp add: function1_Temp l printf_u_0)
  }
  {
    assume f: "fan_scan CPU_FAN 0 (Hardware c) = Inl s"
    show r: "GetCpuFanSpeedRPM h st CPU_FAN CPU_SPEED = (Some 0, st')"
      using GetCpuFanSpeedRPM_found [OF init f] by (simp add: v float_to_int_0)
    show "function1 h st ''Fan_RPM'' ''0'' = (Some ''0'', st')"
      by (simp add: function1_Fan_RPM r printf_u_0)
    show "function1 h st ''Fan_RPM'' ''1'' = (Some ''0RPM'', st')"
      by (simp add: function1_Fan_RPM r printf_u_0)
    show l: "GetCpuFanSpeed h st CPU_FAN CPU_SPEED = (Some 0, st')"
      using GetCpuFanSpeed_found [OF init f] by (simp add: v)
    show "function1 h st ''Fan'' ''0'' = (Some ''0'', st')"
      by (simp add: function1_Fan l printf_u_0)
    show "function1 h st ''Fan'' ''1'' = (Some ''0%'', st')"
      by (simp add: function1_Fan l printf_u_0)
  }
  {
    assume "cpu_sensor_scan (\<lambda>sensor. SensorType sensor = SensorType_Clock \<and> Name sensor = ''CPU Core #1'')
       (Hardware c) = Some s"
    then show l: "GetCpuFrequency h st = (Some 0, st')"
      using GetCpuFrequency_found [OF init] by (simp add: v)
    show "function1 h st ''Clock'' ''0'' = (Some ''0.00'', st')"
      by (simp add: function1_Clock l printf_f_2_0 snprintf_short)
    show "function1 h st ''Clock'' ''1'' = (Some ''0.00GHz'', st')"
      by (simp add: function1_Clock l printf_f_2_0 snprintf_short)
  }
qed


theorem absent_value_reads_as_zero_witness:
  "function1 (example_host NVML_SUCCESS (example_machine None None)) initial_state ''Load'' ''1''
     = (Some ''0%'', opened_state (example_machine None None))
   \<and> function1 (example_host NVML_SUCCESS (example_machine None None)) initial_state ''Power'' ''1''
     = (Some ''0W'', opened_state (example_machine None None))
   \<and> function1 (example_host NVML_SUCCESS (example_machine None None)) initial_state ''Temp'' ''0''
     = (Some ''0'', opened_state (example_machine None None))
   \<and> function1 (example_host NVML_SUCCESS (example_machine None None)) initial_state ''Fan_RPM'' ''1''
     = (Some ''0RPM'', opened_state (example_machine None None))
   \<and> function1 (example_host NVML_SUCCESS (example_machine None None)) initial_state ''Fan'' ''1''
     = (Some ''0%'', opened_state (example_machine None None))
   \<and> function1 (example_host NVML_SUCCESS (example_machine None None)) initial_state ''Clock'' ''1''
     = (Some ''0.00GHz'', opened_state (example_machine None None))"
proof -
  note a = absent_value_reads_as_zero [OF example_Initialize example_computer]
  have "Value \<lparr>SensorType = SensorType_Load, Name = ''CPU Total'', Value = None\<rparr> = None"
    by simp
  note l = a [OF this, THEN conjunct1, rule_format, OF example_load_scan]
  have "Value \<lparr>SensorType = SensorType_Power, Name = ''CPU Package'', Value = None\<rparr> = None"
    by simp
  note p = a [OF this, THEN conjunct2, THEN conjunct1, rule_format, OF example_power_scan]
  have "Value \<lparr>SensorType = SensorType_Temperature, Name = ''CPU Package'', Value = None\<rparr> = None"
    by simp
  note t = a [OF this, THEN conjunct2, THEN conjunct2, THEN conjunct1, rule_format,
      OF example_temperature_scan]
  have "Value (fan_sensor ''Fan #3'' None) = None"
    by (simp add: fan_sensor_def)
  note f = a [OF this, THEN conjunct2, THEN conjunct2, THEN conjunct2, THEN conjunct1, rule_format,
      OF example_fan_scan]
  have "Value \<lparr>SensorType = SensorType_Clock, Name = ''CPU Core #1'', Value = None\<rparr> = None"
    by simp
  note k = a [OF this, THEN conjunct2, THEN conjunct2, THEN conjunct2, THEN conjunct2, rule_format,
      OF example_clock_scan]
  show ?thesis
    using l p t f k by simp
qed


section \<open>Characters of the formatted readings\<close>





lemma length_dec_pad [simp]: "length (dec_pad k n) = k"
  by (induction k arbitrary: n) simp_all




lemma no_unit_suffix:
  assumes "s \<noteq> []" "set s \<subseteq> set ''0123456789.''"
  shows "\<not> has_unit_suffix s"
proof -
  have l: "last s \<in> set ''0123456789.''"
    using assms last_in_set by blast
  have "\<not> suffix u s" if "u \<noteq> []" "last u \<notin> set ''0123456789.''" for u
  proof
    assume "suffix u s"
    then obtain p where "s = p @ u" by (auto simp add: suffix_def)
    then have "last s = last u" using that(1) by simp
    with l that(2) show False by simp
  qed
  then show ?thesis
    by (simp add: has_unit_suffix_def unit_suffixes_def degree_sign_def)
qed

lemma no_unit_suffix_take:
  assumes "0 < n" "s \<noteq> []" "set s \<subseteq> set ''0123456789.''"
  shows "\<not> has_unit_suffix (take n s)"
proof (rule no_unit_suffix)
  show "take n s \<noteq> []" using assms(1,2) by simp
  show "set (take n s) \<subseteq> set ''0123456789.''"
    using assms(3) set_take_subset [of n s] by blast
qed











section \<open>Units on the CPU router\<close>







section \<open>Units on the GPU router\<close>















section \<open>The show-units flag\<close>






end
